theory Spec2Isabelle
  imports
    Complex_Main
    "HOL-Library.AList"
    "HOL-Library.Char_ord"
    "HOL-Library.List_Lexorder"
    "HOL-Library.Product_Lexorder"
begin

section \<open>Python values\<close>

text \<open>
  Conventions of the embedding.
  \<^item> A Python \<open>str\<close> is a \<open>string\<close>: the list of its characters, for text whose code
    points are below 256 (the range of \<open>char\<close>). White space, line boundaries and lower
    case are those of Python on that range. Strings are compared as Python compares them:
    lexicographically by code point (\<open>List_Lexorder\<close>, \<open>Char_ord\<close>).
  \<^item> A Python \<open>float\<close> is the \<open>real\<close> it denotes. The scoring formula is evaluated in exact
    arithmetic (\<open>+\<close>, \<open>*\<close> and \<open>math.log1p\<close> exact). The true division of two integers
    is the exact quotient rounded to the nearest binary64 number, ties to even
    (\<open>float_round\<close>), as Python's is. \<open>round(x, 2)\<close> is \<open>py_round2\<close>: the multiple of \<open>1/100\<close>
    nearest to the value of \<open>x\<close>, ties to even, as Python's is on a float; the outcome
    \<open>k/100\<close> stands for the float nearest to it.
  \<^item> A \<open>dict\<close> is an association list in insertion order with distinct keys; storing
    under an existing key keeps the key's position (\<open>AList.update\<close>).
  \<^item> A \<open>set\<close> of strings is a duplicate-free list; wherever the source iterates over a
    set it sorts the outcome, so the order kept in the list does not show.
  \<^item> An operation that can raise returns \<open>py_error + 'a\<close>, with \<open>Inl\<close> for the exception.
\<close>

datatype py_error = ZeroDivisionError | KeyError | IndexError | ValueError

definition bind_result :: "py_error + 'a \<Rightarrow> ('a \<Rightarrow> py_error + 'b) \<Rightarrow> py_error + 'b" where
  "bind_result r f = (case r of Inl e \<Rightarrow> Inl e | Inr v \<Rightarrow> f v)"

fun map_result :: "('a \<Rightarrow> py_error + 'b) \<Rightarrow> 'a list \<Rightarrow> py_error + 'b list" where
  "map_result f [] = Inr []"
| "map_result f (x # xs) =
     bind_result (f x) (\<lambda>y. bind_result (map_result f xs) (\<lambda>ys. Inr (y # ys)))"

definition float_round :: "real \<Rightarrow> real" where
  \<comment> \<open>the binary64 number nearest to \<open>x\<close>, ties to even, for \<open>x\<close> in the normal range:
      \<open>x\<close> is scaled to a significand between \<open>2^52\<close> and \<open>2^53\<close>, which is rounded to an integer\<close>
  "float_round x =
     (if x = 0 then 0
      else let u = 2 powr (of_int \<lfloor>log 2 \<bar>x\<bar>\<rfloor> - 52); m = x / u; f = \<lfloor>m\<rfloor>; d = m - of_int f
           in (if d < 1 / 2 then of_int f
               else if 1 / 2 < d then of_int (f + 1)
               else if even f then of_int f else of_int (f + 1)) * u)"

definition py_truediv :: "nat \<Rightarrow> nat \<Rightarrow> py_error + real" where
  \<comment> \<open>\<open>a / b\<close> for integers \<open>a\<close>, \<open>b\<close>\<close>
  "py_truediv a b =
     (if b = 0 then Inl ZeroDivisionError else Inr (float_round (real a / real b)))"

definition py_truediv_real :: "real \<Rightarrow> nat \<Rightarrow> py_error + real" where
  \<comment> \<open>\<open>a / b\<close> for a float \<open>a\<close> and an integer \<open>b\<close>\<close>
  "py_truediv_real a b =
     (if b = 0 then Inl ZeroDivisionError else Inr (float_round (a / real b)))"

definition py_round2 :: "real \<Rightarrow> real" where
  "py_round2 x =
     (let y = x * 100; f = \<lfloor>y\<rfloor>; d = y - of_int f
      in (if d < 1 / 2 then of_int f
          else if 1 / 2 < d then of_int (f + 1)
          else if even f then of_int f else of_int (f + 1)) / 100)"

definition dict_getitem :: "('k \<times> 'v) list \<Rightarrow> 'k \<Rightarrow> py_error + 'v" where
  "dict_getitem d k = (case map_of d k of None \<Rightarrow> Inl KeyError | Some v \<Rightarrow> Inr v)"

definition dict_get :: "('k \<times> 'v) list \<Rightarrow> 'k \<Rightarrow> 'v \<Rightarrow> 'v" where
  "dict_get d k dflt = (case map_of d k of None \<Rightarrow> dflt | Some v \<Rightarrow> v)"

definition py_sorted_reverse :: "('a \<Rightarrow> 'k::linorder) \<Rightarrow> 'a list \<Rightarrow> 'a list" where
  \<comment> \<open>\<open>sorted(xs, key=f, reverse=True)\<close>: a stable sort on the reversed list, reversed.\<close>
  "py_sorted_reverse f xs = rev (sort_key f (rev xs))"

definition py_slice_to :: "'a list \<Rightarrow> int \<Rightarrow> 'a list" where
  \<comment> \<open>\<open>xs[:n]\<close>; a negative \<open>n\<close> counts from the end.\<close>
  "py_slice_to xs n =
     (if n < 0 then take (nat (int (length xs) + n)) xs else take (nat n) xs)"

subsection \<open>String methods\<close>

definition isspace :: "char \<Rightarrow> bool" where
  \<comment> \<open>\<open>str.isspace\<close>: tab to carriage return, the four separators, space, next line (133)
      and no-break space (160)\<close>
  "isspace c =
     (let n = (of_char c :: nat)
      in (9 \<le> n \<and> n \<le> 13) \<or> (28 \<le> n \<and> n \<le> 32) \<or> n = 133 \<or> n = 160)"

definition strip :: "string \<Rightarrow> string" where
  "strip s = rev (dropWhile isspace (rev (dropWhile isspace s)))"

definition lower_char :: "char \<Rightarrow> char" where
  \<comment> \<open>the capital letters below 256 are 65 to 90 and 192 to 222 without 215\<close>
  "lower_char c =
     (let n = (of_char c :: nat)
      in if (65 \<le> n \<and> n \<le> 90) \<or> (192 \<le> n \<and> n \<le> 222 \<and> n \<noteq> 215)
         then char_of (n + 32) else c)"

definition lower :: "string \<Rightarrow> string" where
  "lower s = map lower_char s"

definition replace_newlines :: "string \<Rightarrow> string" where
  \<comment> \<open>\<open>s.replace("\n", " ")\<close>\<close>
  "replace_newlines s = map (\<lambda>c. if c = CHR 0x0A then CHR '' '' else c) s"

fun join :: "string \<Rightarrow> string list \<Rightarrow> string" where
  "join sep [] = []"
| "join sep [x] = x"
| "join sep (x # y # ys) = x @ sep @ join sep (y # ys)"

fun split_char :: "char \<Rightarrow> string \<Rightarrow> string list" where
  \<comment> \<open>\<open>s.split(c)\<close> for a one-character separator: never an empty list\<close>
  "split_char sep [] = [[]]"
| "split_char sep (c # cs) =
     (if c = sep then [] # split_char sep cs
      else (case split_char sep cs of
              [] \<Rightarrow> [[c]]
            | w # ws \<Rightarrow> (c # w) # ws))"

definition split_char_once :: "char \<Rightarrow> string \<Rightarrow> string list" where
  \<comment> \<open>\<open>s.split(c, 1)\<close>: at most one split, at the first separator\<close>
  "split_char_once sep s =
     (case dropWhile (\<lambda>c. c \<noteq> sep) s of
        [] \<Rightarrow> [s]
      | _ # rest \<Rightarrow> [takeWhile (\<lambda>c. c \<noteq> sep) s, rest])"

definition is_linebreak :: "char \<Rightarrow> bool" where
  \<comment> \<open>the line boundaries of \<open>str.splitlines\<close>: line feed to carriage return, the file,
      group and record separators, and next line (133)\<close>
  "is_linebreak c =
     (let n = (of_char c :: nat)
      in (10 \<le> n \<and> n \<le> 13) \<or> (28 \<le> n \<and> n \<le> 30) \<or> n = 133)"

fun splitlines_from :: "string \<Rightarrow> string \<Rightarrow> string list" where
  \<comment> \<open>first argument: the current line so far, reversed\<close>
  "splitlines_from cur [] = (if cur = [] then [] else [rev cur])"
| "splitlines_from cur (c # cs) =
     (if c = CHR 0x0D then
        (case cs of
           [] \<Rightarrow> [rev cur]
         | d # ds \<Rightarrow>
             if d = CHR 0x0A then rev cur # splitlines_from [] ds
             else rev cur # splitlines_from [] (d # ds))
      else if is_linebreak c then rev cur # splitlines_from [] cs
      else splitlines_from (c # cur) cs)"

definition splitlines :: "string \<Rightarrow> string list" where
  "splitlines s = splitlines_from [] s"

definition unpack2 :: "'a list \<Rightarrow> py_error + ('a \<times> 'a)" where
  \<comment> \<open>\<open>a, b = xs\<close>\<close>
  "unpack2 xs = (case xs of [a, b] \<Rightarrow> Inr (a, b) | _ \<Rightarrow> Inl ValueError)"

fun str_nat :: "nat \<Rightarrow> string" where
  \<comment> \<open>\<open>str(n)\<close> for a non-negative integer\<close>
  "str_nat n =
     (if n < 10 then [char_of (48 + n)]
      else str_nat (n div 10) @ [char_of (48 + n mod 10)])"

declare str_nat.simps [simp del]

section \<open>Data model (\<open>data_sources.py\<close>, \<open>skill_profiles.py\<close>)\<close>

record SourceDocument =
  doc_name :: string
  doc_kind :: string
  doc_text :: string
  visibility :: string
  origin :: string

record SkillEvidence =
  source :: string
  snippet :: string

record SkillSignal =
  name :: string
  category :: string
  signal_type :: string
  confidence :: real
  sources :: "string list"
  evidence :: "SkillEvidence list"

text \<open>
  A registry entry is the dictionary that \<open>_register_signal\<close> creates, with the keys
  \<open>name\<close>, \<open>category\<close>, \<open>type\<close>, \<open>sources\<close> (a set), \<open>snippets\<close> and \<open>mentions\<close>.
\<close>

record registry_entry =
  entry_name :: string
  entry_category :: string
  entry_type :: string
  entry_sources :: "string list"
  snippets :: "SkillEvidence list"
  mentions :: nat

type_synonym registry = "(string \<times> registry_entry) list"

text \<open>
  What the sources import and do not define themselves: the module
  \<open>skills\<close> (\<open>normalize_skill\<close>, \<open>COMMON_SKILLS\<close>), the module \<open>learning_resources\<close>,
  the regular-expression engine (\<open>re.finditer\<close> with \<open>re.IGNORECASE\<close>, giving the spans of
  the matches of a pattern in a text, and \<open>re.escape\<close>), the printing of a float,
  \<open>str.title\<close> (whose outcome can leave the range of \<open>char\<close>) and the \<open>sum\<close> of a list of
  floats (whose rounding depends on the Python version).
  Every function below takes them as one record, and every theorem holds for all of them.
\<close>

record externals =
  normalize_skill :: "string \<Rightarrow> string"
  COMMON_SKILLS :: "string list"
  re_finditer :: "string \<Rightarrow> string \<Rightarrow> (nat \<times> nat) list"
  re_escape :: "string \<Rightarrow> string"
  get_learning_resources :: "string list \<Rightarrow> (string \<times> string) list"
  str_float :: "real \<Rightarrow> string"
  str_title :: "string \<Rightarrow> string"
  float_sum :: "real list \<Rightarrow> real"

definition FORMAL_SKILL_FRAMEWORK :: "(string \<times> string list) list" where
  "FORMAL_SKILL_FRAMEWORK =
     [(''Technical Foundation'',
        [''python'', ''java'', ''javascript'', ''typescript'', ''c++'', ''c#'', ''sql'', ''cloud'',
         ''aws'', ''azure'', ''gcp'', ''docker'', ''kubernetes'', ''ci/cd'', ''git'']),
      (''Data & AI'',
        [''data analysis'', ''data science'', ''machine learning'', ''deep learning'',
         ''computer vision'', ''nlp'', ''mlops'', ''pandas'', ''numpy'', ''tensorflow'', ''pytorch'',
         ''xgboost'']),
      (''Product & Delivery'',
        [''project management'', ''agile'', ''scrum'', ''kanban'', ''product management'',
         ''stakeholder management'', ''roadmapping'', ''testing'', ''qa'', ''devops'']),
      (''Leadership & Impact'',
        [''leadership'', ''mentorship'', ''communication'', ''strategic planning'',
         ''problem solving'', ''innovation'', ''change management''])]"

definition FRAMEWORK_LOOKUP :: "externals \<Rightarrow> (string \<times> string) list" where
  "FRAMEWORK_LOOKUP ext =
     fold (\<lambda>(category, skills) d.
             fold (\<lambda>skill d'. AList.update (normalize_skill ext skill) category d') skills d)
          FORMAL_SKILL_FRAMEWORK []"

definition wb :: string where
  \<comment> \<open>the two characters of the regular expression \<open>\b\<close>\<close>
  "wb = [CHR 0x5C, CHR ''b'']"

definition IMPLICIT_PATTERNS :: "(string \<times> string list) list" where
  "IMPLICIT_PATTERNS =
     [(''leadership'',
        [wb @ ''led'' @ wb, wb @ ''managed'' @ wb, wb @ ''head(ed)?'' @ wb, wb @ ''directed'' @ wb]),
      (''mentorship'',
        [wb @ ''mentored'' @ wb, wb @ ''coached'' @ wb, wb @ ''trained'' @ wb]),
      (''stakeholder management'',
        [wb @ ''stakeholder(s)?'' @ wb, wb @ ''aligned'' @ wb @ ''.*'' @ wb @ ''team'' @ wb]),
      (''communication'',
        [wb @ ''presented'' @ wb, wb @ ''facilitated'' @ wb, wb @ ''workshop'' @ wb]),
      (''strategic planning'',
        [wb @ ''roadmap'' @ wb, wb @ ''strategy'' @ wb, wb @ ''vision'' @ wb]),
      (''problem solving'',
        [wb @ ''root cause'' @ wb, wb @ ''troubleshoot(ed)?'' @ wb, wb @ ''debugged'' @ wb]),
      (''continuous improvement'',
        [wb @ ''retrospective'' @ wb, wb @ ''continuous improvement'' @ wb, wb @ ''kaizen'' @ wb]),
      (''governance'',
        [wb @ ''audit(ed)?'' @ wb, wb @ ''compliance'' @ wb, wb @ ''risk'' @ wb]),
      (''innovation'',
        [wb @ ''prototype(d)?'' @ wb, wb @ ''experiments?'' @ wb, wb @ ''hackathon'' @ wb])]"

definition IMPLICIT_CATEGORY :: "(string \<times> string) list" where
  "IMPLICIT_CATEGORY =
     [(''leadership'', ''Leadership & Impact''),
      (''mentorship'', ''Leadership & Impact''),
      (''stakeholder management'', ''Product & Delivery''),
      (''communication'', ''Leadership & Impact''),
      (''strategic planning'', ''Leadership & Impact''),
      (''problem solving'', ''Technical Foundation''),
      (''continuous improvement'', ''Product & Delivery''),
      (''governance'', ''Product & Delivery''),
      (''innovation'', ''Leadership & Impact'')]"

section \<open>Extraction, aggregation and scoring (\<open>skill_profiles.py\<close>)\<close>

definition snippet_at :: "string \<Rightarrow> nat \<Rightarrow> nat \<Rightarrow> nat \<Rightarrow> string" where
  \<comment> \<open>\<open>_snippet(text, start, end, window)\<close>\<close>
  "snippet_at txt start stop window =
     (let left = nat (max 0 (int start - int window));
          right = min (length txt) (stop + window)
      in strip (replace_newlines (take (right - left) (drop left txt))))"

definition new_entry :: "string \<Rightarrow> string \<Rightarrow> string \<Rightarrow> registry_entry" where
  \<comment> \<open>the default handed to \<open>registry.setdefault\<close>\<close>
  "new_entry nm cat sig_type =
     \<lparr>entry_name = nm,
      entry_category = (if cat = [] then ''Uncategorized'' else cat),
      entry_type = sig_type,
      entry_sources = [],
      snippets = [],
      mentions = 0\<rparr>"

definition register_signal ::
  "externals \<Rightarrow> registry \<Rightarrow> string \<Rightarrow> string \<Rightarrow> string \<Rightarrow> SourceDocument \<Rightarrow> string option
     \<Rightarrow> registry" where
  "register_signal ext registry nm cat sig_type src snip =
     (let key = normalize_skill ext nm;
          entry = dict_get registry key (new_entry nm cat sig_type);
          entry1 = entry\<lparr>mentions := mentions entry + 1\<rparr>;
          entry2 = entry1\<lparr>entry_sources := List.insert (doc_name src) (entry_sources entry1)\<rparr>;
          entry3 = (case snip of
                      None \<Rightarrow> entry2
                    | Some s \<Rightarrow>
                        if s = [] then entry2
                        else entry2\<lparr>snippets :=
                               snippets entry2 @ [\<lparr>source = doc_name src, snippet = s\<rparr>]\<rparr>)
      in AList.update key entry3 registry)"

definition entry_confidence :: "registry_entry \<Rightarrow> real" where
  "entry_confidence entry =
     (let mention_bonus = min 0.35 (0.12 * ln (1 + real (mentions entry)));
          source_bonus = min 0.2 (0.08 * real_of_int (max 0 (int (length (entry_sources entry)) - 1)));
          base = (if entry_type entry = ''explicit'' then 0.55 else 0.45)
      in py_round2 (min 0.98 (base + mention_bonus + source_bonus)))"

definition finalize_entry :: "registry_entry \<Rightarrow> SkillSignal" where
  \<comment> \<open>the body of the loop of \<open>_finalize_registry\<close>\<close>
  "finalize_entry entry =
     \<lparr>name = entry_name entry,
      category = entry_category entry,
      signal_type = entry_type entry,
      confidence = entry_confidence entry,
      sources = sort (entry_sources entry),
      evidence = py_slice_to (snippets entry) 3\<rparr>"

definition finalize_registry :: "registry \<Rightarrow> SkillSignal list" where
  "finalize_registry registry =
     py_sorted_reverse (\<lambda>s. (confidence s, name s)) (map (\<lambda>(key, entry). finalize_entry entry) registry)"

definition match_skill_occurrences :: "externals \<Rightarrow> string \<Rightarrow> string \<Rightarrow> (nat \<times> nat) list" where
  "match_skill_occurrences ext txt skill = re_finditer ext (wb @ re_escape ext skill @ wb) txt"

definition register_explicit :: "externals \<Rightarrow> SourceDocument \<Rightarrow> registry \<Rightarrow> registry" where
  \<comment> \<open>the loop over \<open>COMMON_SKILLS\<close> in \<open>build_skill_profile\<close>\<close>
  "register_explicit ext src registry =
     fold (\<lambda>skill reg.
             fold (\<lambda>(start, stop) reg'.
                     register_signal ext reg' skill
                       (dict_get (FRAMEWORK_LOOKUP ext) (normalize_skill ext skill) ''Technical Foundation'')
                       ''explicit'' src (Some (snippet_at (doc_text src) start stop 90)))
                  (match_skill_occurrences ext (doc_text src) skill) reg)
          (COMMON_SKILLS ext) registry"

definition register_implicit :: "externals \<Rightarrow> SourceDocument \<Rightarrow> registry \<Rightarrow> registry" where
  \<comment> \<open>the loop over \<open>IMPLICIT_PATTERNS\<close> in \<open>build_skill_profile\<close>\<close>
  "register_implicit ext src registry =
     (let lowered = lower (doc_text src)
      in fold (\<lambda>(implicit_skill, patterns) reg.
                 fold (\<lambda>pattern reg'.
                         fold (\<lambda>(start, stop) reg''.
                                 register_signal ext reg'' implicit_skill
                                   (dict_get IMPLICIT_CATEGORY implicit_skill ''Leadership & Impact'')
                                   ''implicit'' src (Some (snippet_at (doc_text src) start stop 90)))
                              (re_finditer ext pattern lowered) reg')
                      patterns reg)
              IMPLICIT_PATTERNS registry)"

definition nonblank_sources :: "SourceDocument list \<Rightarrow> SourceDocument list" where
  \<comment> \<open>\<open>[src for src in sources if src and src.text.strip()]\<close>\<close>
  "nonblank_sources srcs = filter (\<lambda>src. strip (doc_text src) \<noteq> []) srcs"

definition build_registry :: "externals \<Rightarrow> SourceDocument list \<Rightarrow> registry" where
  \<comment> \<open>the registry of \<open>build_skill_profile\<close> when its loop over the sources ends\<close>
  "build_registry ext srcs =
     fold (\<lambda>src reg. register_implicit ext src (register_explicit ext src reg))
          (nonblank_sources srcs) []"

section \<open>Profile statistics and summary (\<open>skill_profiles.py\<close>)\<close>

definition py_set :: "'a list \<Rightarrow> 'a list" where
  \<comment> \<open>\<open>set(xs)\<close>, and a set comprehension over \<open>xs\<close>\<close>
  "py_set xs = remdups xs"

definition dict_contains :: "('k \<times> 'v) list \<Rightarrow> 'k \<Rightarrow> bool" where
  \<comment> \<open>\<open>k in d\<close>\<close>
  "dict_contains d k = (map_of d k \<noteq> None)"

definition counter :: "'a list \<Rightarrow> ('a \<times> nat) list" where
  \<comment> \<open>\<open>Counter(xs)\<close>\<close>
  "counter xs = fold (\<lambda>x d. AList.update x (dict_get d x 0 + 1) d) xs []"

definition py_index :: "'a list \<Rightarrow> nat \<Rightarrow> py_error + 'a" where
  \<comment> \<open>\<open>xs[i]\<close> for \<open>i \<ge> 0\<close>\<close>
  "py_index xs i = (if i < length xs then Inr (xs ! i) else Inl IndexError)"

record alignment =
  covered :: "string list"
  fa_coverage :: real
  target_total :: nat

record ProfileStats =
  source_count :: nat
  explicit_count :: nat
  implicit_count :: nat
  category_distribution :: "(string \<times> nat) list"
  framework_alignment :: "(string \<times> alignment) list"
  avg_confidence :: real
  sources_visibility :: "(string \<times> nat) list"
  top_sources :: "string list"

record SkillProfile =
  signals :: "SkillSignal list"
  stats :: ProfileStats
  summary :: string

definition framework_coverage :: "string list \<Rightarrow> string list \<Rightarrow> py_error + real" where
  \<comment> \<open>\<open>len(covered & normalized_targets) / len(normalized_targets) if normalized_targets else 0\<close>\<close>
  "framework_coverage cov normalized_targets =
     (if normalized_targets \<noteq> []
      then py_truediv (length (filter (\<lambda>k. k \<in> set normalized_targets) cov)) (length normalized_targets)
      else Inr 0)"

definition framework_entry ::
  "externals \<Rightarrow> SkillSignal list \<Rightarrow> string \<times> string list \<Rightarrow> py_error + (string \<times> alignment)" where
  \<comment> \<open>the body of the loop over the framework's items in \<open>_profile_stats\<close>\<close>
  "framework_entry ext sigs item =
     (case item of (cat, skills) \<Rightarrow>
        let normalized_targets = py_set (map (normalize_skill ext) skills);
            cov = py_set (map (\<lambda>s. normalize_skill ext (name s)) (filter (\<lambda>s. category s = cat) sigs))
        in bind_result (framework_coverage cov normalized_targets)
             (\<lambda>c. Inr (cat,
                \<lparr>covered = sort (py_set (filter (\<lambda>s. s \<in> set normalized_targets) cov)),
                 fa_coverage = py_round2 c,
                 target_total = length normalized_targets\<rparr>)))"

definition profile_stats_for ::
  "(string \<times> string list) list \<Rightarrow> externals \<Rightarrow> SkillSignal list \<Rightarrow> SourceDocument list
     \<Rightarrow> py_error + ProfileStats" where
  \<comment> \<open>\<open>_profile_stats\<close>, with the framework table it reads as an argument\<close>
  "profile_stats_for framework ext sigs srcs =
     (let explicit = length (filter (\<lambda>s. signal_type s = ''explicit'') sigs);
          implicit = length (filter (\<lambda>s. signal_type s = ''implicit'') sigs);
          by_category = counter (map category sigs)
      in bind_result (map_result (framework_entry ext sigs) framework)
           (\<lambda>fa. bind_result
                    (if sigs \<noteq> []
                     then bind_result (py_truediv_real (float_sum ext (map confidence sigs)) (length sigs))
                            (\<lambda>a. Inr (py_round2 a))
                     else Inr 0)
              (\<lambda>avg_conf. Inr
                 \<lparr>source_count = length srcs,
                  explicit_count = explicit,
                  implicit_count = implicit,
                  category_distribution = by_category,
                  framework_alignment = fa,
                  avg_confidence = avg_conf,
                  sources_visibility = counter (map visibility srcs),
                  top_sources = map doc_name (py_slice_to srcs 3)\<rparr>)))"

definition profile_stats ::
  "externals \<Rightarrow> SkillSignal list \<Rightarrow> SourceDocument list \<Rightarrow> py_error + ProfileStats" where
  "profile_stats = profile_stats_for FORMAL_SKILL_FRAMEWORK"

definition summarize_profile :: "externals \<Rightarrow> SkillSignal list \<Rightarrow> ProfileStats \<Rightarrow> string" where
  "summarize_profile ext sigs st =
     (if sigs = [] then ''No skills detected yet. Add more sources to unlock hidden strengths.''
      else
        let top = join '', '' (map (\<lambda>s. str_title ext (name s)) (py_slice_to sigs 5));
            categories = join '', ''
              (map (\<lambda>(cat, count). cat @ '' ('' @ str_nat count @ '')'') (category_distribution st))
        in ''Identified '' @ str_nat (explicit_count st) @ '' explicit and ''
           @ str_nat (implicit_count st) @ '' implicit skills across ''
           @ str_nat (source_count st) @ '' sources. Top strengths: '' @ top
           @ ''. Coverage spans '' @ categories @ '' with an average confidence of ''
           @ str_float ext (avg_confidence st) @ ''.'')"

definition build_skill_profile :: "externals \<Rightarrow> SourceDocument list \<Rightarrow> py_error + SkillProfile" where
  "build_skill_profile ext srcs =
     (let kept = nonblank_sources srcs;
          registry = build_registry ext srcs;
          sigs = finalize_registry registry
      in bind_result (profile_stats ext sigs kept)
           (\<lambda>st. Inr \<lparr>signals = sigs, stats = st, summary = summarize_profile ext sigs st\<rparr>))"

definition as_skill_set :: "externals \<Rightarrow> SkillSignal list \<Rightarrow> (string \<times> SkillSignal) list" where
  \<comment> \<open>\<open>{normalize_skill(signal.name): signal for signal in signals}\<close>\<close>
  "as_skill_set ext sigs = fold (\<lambda>s d. AList.update (normalize_skill ext (name s)) s d) sigs []"

section \<open>Matching (\<open>opportunity_matching.py\<close>)\<close>

record JobMatchResult =
  coverage :: real
  matched :: "string list"
  gaps :: "string list"
  recommendations :: "(string \<times> string) list"
  raw_job_profile :: SkillProfile

definition skillset_names ::
  "(string \<times> SkillSignal) list \<Rightarrow> string list \<Rightarrow> py_error + string list" where
  \<comment> \<open>\<open>[skillset[key].name for key in keys]\<close>\<close>
  "skillset_names skillset keys =
     map_result (\<lambda>key. bind_result (dict_getitem skillset key) (\<lambda>s. Inr (name s))) keys"

definition job_source :: "string \<Rightarrow> SourceDocument" where
  \<comment> \<open>the synthetic document that \<open>match_profile_to_job\<close> builds from the job text\<close>
  "job_source job_text =
     \<lparr>doc_name = ''Job Posting'', doc_kind = ''job'', doc_text = strip job_text,
      visibility = ''public'', origin = ''manual''\<rparr>"

definition match_profile_to_job ::
  "externals \<Rightarrow> SkillProfile \<Rightarrow> string \<Rightarrow> py_error + JobMatchResult option" where
  "match_profile_to_job ext skill_profile job_text =
     (if job_text = [] \<or> strip job_text = [] then Inr None
      else
        bind_result (build_skill_profile ext [job_source job_text])
             (\<lambda>job_profile.
                let candidate_skillset = as_skill_set ext (signals skill_profile);
                    job_skillset = as_skill_set ext (signals job_profile)
                in if job_skillset = []
                   then Inr (Some \<lparr>coverage = 0, matched = [], gaps = [], recommendations = [],
                                   raw_job_profile = job_profile\<rparr>)
                   else
                     bind_result
                       (skillset_names job_skillset
                          (filter (\<lambda>key. dict_contains candidate_skillset key) (map fst job_skillset)))
                       (\<lambda>matched_names. bind_result
                          (skillset_names job_skillset
                             (filter (\<lambda>key. \<not> dict_contains candidate_skillset key) (map fst job_skillset)))
                          (\<lambda>gap_names. bind_result
                             (if job_skillset \<noteq> []
                              then py_truediv (length matched_names) (length job_skillset)
                              else Inr 0)
                             (\<lambda>cov. Inr (Some
                                \<lparr>coverage = py_round2 cov,
                                 matched = sort (py_set matched_names),
                                 gaps = sort (py_set gap_names),
                                 recommendations = get_learning_resources ext gap_names,
                                 raw_job_profile = job_profile\<rparr>))))))"

record team_member =
  member_name :: string
  skills :: "string list"

definition parse_team_line :: "string \<Rightarrow> py_error + team_member option" where
  \<comment> \<open>the body of the loop of \<open>parse_team_profiles\<close>; \<open>None\<close> is \<open>continue\<close>\<close>
  "parse_team_line line =
     (if CHR '':'' \<notin> set line then Inr None
      else bind_result (unpack2 (split_char_once CHR '':'' line))
             (\<lambda>(nm, skills_blob).
                let sk = map strip (filter (\<lambda>skill. strip skill \<noteq> []) (split_char CHR '','' skills_blob))
                in if sk = [] then Inr None
                   else Inr (Some \<lparr>member_name = strip nm, skills = sk\<rparr>)))"

fun parse_team_lines :: "string list \<Rightarrow> py_error + team_member list" where
  "parse_team_lines [] = Inr []"
| "parse_team_lines (line # rest) =
     bind_result (parse_team_line line)
       (\<lambda>m. bind_result (parse_team_lines rest)
          (\<lambda>ps. Inr (case m of None \<Rightarrow> ps | Some p \<Rightarrow> p # ps)))"

definition parse_team_profiles :: "string \<Rightarrow> py_error + team_member list" where
  "parse_team_profiles raw_text =
     (if raw_text = [] then Inr [] else parse_team_lines (splitlines raw_text))"

record team_report =
  team_size :: nat
  team_skill_coverage :: nat
  unique_strengths :: "string list"
  team_gaps :: "string list"

definition compare_against_team ::
  "externals \<Rightarrow> SkillProfile \<Rightarrow> team_member list \<Rightarrow> py_error + team_report" where
  "compare_against_team ext skill_profile team_profiles =
     (let candidate_skillset = as_skill_set ext (signals skill_profile);
          candidate_keys = py_set (map fst candidate_skillset);
          team_skillset =
            fold (\<lambda>member ts. fold (\<lambda>skill ts'. List.insert (normalize_skill ext skill) ts') (skills member) ts)
                 team_profiles []
      in bind_result
           (skillset_names candidate_skillset (filter (\<lambda>key. key \<notin> set team_skillset) candidate_keys))
           (\<lambda>strengths.
              let missing_in_team = filter (\<lambda>skill. skill \<notin> set candidate_keys) team_skillset
              in Inr \<lparr>team_size = length team_profiles,
                      team_skill_coverage = length team_skillset,
                      unique_strengths = sort strengths,
                      team_gaps = sort missing_in_team\<rparr>))"

definition cv_bullet :: "externals \<Rightarrow> SkillSignal \<Rightarrow> py_error + string" where
  \<comment> \<open>the body of the loop of \<open>generate_cv_highlights\<close>\<close>
  "cv_bullet ext s =
     bind_result
       (if evidence s \<noteq> [] then bind_result (py_index (evidence s) 0) (\<lambda>e. Inr (snippet e)) else Inr [])
       (\<lambda>snip.
          let bullet = str_title ext (name s) @ '' ('' @ category s @ '') - confidence ''
                       @ str_float ext (confidence s)
          in Inr (if snip \<noteq> [] then bullet @ ''; evidence: '' @ py_slice_to snip 120 @ ''...''
                  else bullet))"

definition generate_cv_highlights :: "externals \<Rightarrow> SkillProfile \<Rightarrow> int \<Rightarrow> py_error + string list" where
  "generate_cv_highlights ext skill_profile limit =
     map_result (cv_bullet ext) (py_slice_to (signals skill_profile) limit)"

definition generate_cv_highlights_default :: "externals \<Rightarrow> SkillProfile \<Rightarrow> py_error + string list" where
  \<comment> \<open>the call without \<open>limit\<close>, which defaults to 4\<close>
  "generate_cv_highlights_default ext skill_profile = generate_cv_highlights ext skill_profile 4"

section \<open>The specification's scoring formula and line format\<close>

definition spec_confidence :: "string \<Rightarrow> nat \<Rightarrow> nat \<Rightarrow> real" where
  \<comment> \<open>the scoring formula as the specification writes it\<close>
  "spec_confidence signal_kind mention_count distinct_source_count =
     (let base = (if signal_kind = ''explicit'' then 0.55 else 0.45);
          mention_bonus = min 0.35 (0.12 * ln (1 + real mention_count));
          source_bonus = min 0.20 (0.08 * max 0 (real distinct_source_count - 1))
      in py_round2 (min 0.98 (base + mention_bonus + source_bonus)))"

definition spec_team_line :: "string \<Rightarrow> team_member option" where
  \<comment> \<open>what the specification keeps of one line of a team inventory\<close>
  "spec_team_line line =
     (if CHR '':'' \<in> set line
      then let blob = tl (dropWhile (\<lambda>c. c \<noteq> CHR '':'') line);
               sk = filter (\<lambda>s. s \<noteq> []) (map strip (split_char CHR '','' blob))
           in if sk = [] then None
              else Some \<lparr>member_name = strip (takeWhile (\<lambda>c. c \<noteq> CHR '':'') line), skills = sk\<rparr>
      else None)"

definition spec_team_members :: "string \<Rightarrow> team_member list" where
  "spec_team_members txt = List.map_filter spec_team_line (splitlines txt)"

section \<open>Skill keys and the registry invariant\<close>

definition skill_keys :: "externals \<Rightarrow> SkillSignal list \<Rightarrow> string set" where
  \<comment> \<open>the keys of the normalized skill mapping of a list of signals\<close>
  "skill_keys ext sigs = fst ` set (as_skill_set ext sigs)"

text \<open>
  The invariant of the registry: one entry per key, each entry stored under the normalized
  form of its display name, with its sources free of duplicates.
\<close>

definition registry_ok :: "externals \<Rightarrow> registry \<Rightarrow> bool" where
  "registry_ok ext reg \<longleftrightarrow>
     distinct (map fst reg) \<and>
     (\<forall>(k, e) \<in> set reg. normalize_skill ext (entry_name e) = k \<and> distinct (entry_sources e))"

section \<open>Framework coverage of a set of targets\<close>



definition alignment_row :: "string \<times> alignment \<Rightarrow> string \<times> real \<times> nat" where
  "alignment_row item = (case item of (cat, a) \<Rightarrow> (cat, fa_coverage a, target_total a))"

definition alignment_rows :: "externals \<Rightarrow> SkillSignal list \<Rightarrow> (string \<times> real \<times> nat) list" where
  \<comment> \<open>category, coverage and target total of each row of the alignment table of \<open>_profile_stats\<close>\<close>
  "alignment_rows ext sigs =
     (case profile_stats ext sigs [] of
        Inl e \<Rightarrow> []
      | Inr st \<Rightarrow> map alignment_row (framework_alignment st))"


section \<open>Occurrence events\<close>

text \<open>
  The calls of \<open>_register_signal\<close> that one build makes, as a list: for each document kept,
  in order, one event per match of a lexicon term and then one per match of an implicit
  pattern. The registry of a build is the fold of \<open>_register_signal\<close> over this list
  (\<open>build_registry_events\<close> below), which is what the statements about mention counts and
  document order are proved from.
\<close>

type_synonym occurrence = "string \<times> string \<times> string \<times> string option"

definition explicit_events :: "externals \<Rightarrow> SourceDocument \<Rightarrow> occurrence list" where
  "explicit_events ext src =
     concat (map (\<lambda>skill.
                    map (\<lambda>(start, stop).
                           (skill,
                            dict_get (FRAMEWORK_LOOKUP ext) (normalize_skill ext skill) ''Technical Foundation'',
                            ''explicit'',
                            Some (snippet_at (doc_text src) start stop 90)))
                        (match_skill_occurrences ext (doc_text src) skill))
                 (COMMON_SKILLS ext))"

definition implicit_events :: "externals \<Rightarrow> SourceDocument \<Rightarrow> occurrence list" where
  "implicit_events ext src =
     concat (map (\<lambda>(implicit_skill, patterns).
                    concat (map (\<lambda>pattern.
                                   map (\<lambda>(start, stop).
                                          (implicit_skill,
                                           dict_get IMPLICIT_CATEGORY implicit_skill ''Leadership & Impact'',
                                           ''implicit'',
                                           Some (snippet_at (doc_text src) start stop 90)))
                                       (re_finditer ext pattern (lower (doc_text src))))
                                patterns))
                 IMPLICIT_PATTERNS)"

definition register_event :: "externals \<Rightarrow> SourceDocument \<times> occurrence \<Rightarrow> registry \<Rightarrow> registry" where
  "register_event ext item reg =
     (case item of (src, nm, cat, ty, sn) \<Rightarrow> register_signal ext reg nm cat ty src sn)"

definition batch_events :: "externals \<Rightarrow> SourceDocument list \<Rightarrow> (SourceDocument \<times> occurrence) list" where
  "batch_events ext srcs =
     concat (map (\<lambda>src. map (Pair src) (explicit_events ext src @ implicit_events ext src))
                 (nonblank_sources srcs))"

definition event_key :: "externals \<Rightarrow> SourceDocument \<times> occurrence \<Rightarrow> string" where
  "event_key ext item = (case item of (src, nm, cat, ty, sn) \<Rightarrow> normalize_skill ext nm)"

definition key_mentions :: "registry \<Rightarrow> string \<Rightarrow> nat" where
  "key_mentions reg k = (case map_of reg k of None \<Rightarrow> 0 | Some e \<Rightarrow> mentions e)"

definition key_sources :: "registry \<Rightarrow> string \<Rightarrow> string set" where
  "key_sources reg k = (case map_of reg k of None \<Rightarrow> {} | Some e \<Rightarrow> set (entry_sources e))"

definition lexicon_separate :: "externals \<Rightarrow> bool" where
  \<comment> \<open>no lexicon term has the normalized key of an implicit skill\<close>
  "lexicon_separate ext \<longleftrightarrow>
     normalize_skill ext ` set (COMMON_SKILLS ext) \<inter> normalize_skill ext ` fst ` set IMPLICIT_PATTERNS = {}"

definition event_kind_ok :: "externals \<Rightarrow> SourceDocument \<times> occurrence \<Rightarrow> bool" where
  "event_kind_ok ext item \<longleftrightarrow>
     (case item of (src, nm, cat, ty, sn) \<Rightarrow>
        (ty = ''explicit'' \<and> normalize_skill ext nm \<in> normalize_skill ext ` set (COMMON_SKILLS ext)) \<or>
        (ty = ''implicit'' \<and> normalize_skill ext nm \<in> normalize_skill ext ` fst ` set IMPLICIT_PATTERNS))"

definition kinds_ok :: "externals \<Rightarrow> registry \<Rightarrow> bool" where
  "kinds_ok ext reg \<longleftrightarrow>
     (\<forall>k e. map_of reg k = Some e \<longrightarrow>
        (entry_type e = ''explicit'' \<and> k \<in> normalize_skill ext ` set (COMMON_SKILLS ext)) \<or>
        (entry_type e = ''implicit'' \<and> k \<in> normalize_skill ext ` fst ` set IMPLICIT_PATTERNS))"

definition built_confidences :: "externals \<Rightarrow> SourceDocument list \<Rightarrow> (string \<times> real) list option" where
  \<comment> \<open>the normalized skills of a built profile with their confidences, in the profile's order\<close>
  "built_confidences ext srcs =
     (case build_skill_profile ext srcs of
        Inl e \<Rightarrow> None
      | Inr p \<Rightarrow> Some (map (\<lambda>s. (normalize_skill ext (name s), confidence s)) (signals p)))"

section \<open>Sample data\<close>

text \<open>
  Concrete externals for the worked examples: a normaliser that trims and lowercases, a
  five-term lexicon, and the spans that \<open>re.finditer\<close> returns for the patterns of this
  program on the few texts used below (no other pattern of the program matches in them).
  A second normaliser also folds punctuation, which the specification allows a normaliser
  to do: it keeps letters, digits and spaces only, so that \<open>c++\<close> and \<open>c#\<close> both become \<open>c\<close>.
\<close>

definition sample_normalize :: "string \<Rightarrow> string" where
  "sample_normalize s = lower (strip s)"

definition isupper :: "char \<Rightarrow> bool" where
  "isupper c = (let n = (of_char c :: nat) in 65 \<le> n \<and> n \<le> 90)"

definition islower :: "char \<Rightarrow> bool" where
  "islower c = (let n = (of_char c :: nat) in 97 \<le> n \<and> n \<le> 122)"

definition upper_char :: "char \<Rightarrow> char" where
  "upper_char c = (if islower c then char_of (of_char c - (32 :: nat)) else c)"

fun sample_title_from :: "bool \<Rightarrow> string \<Rightarrow> string" where
  \<comment> \<open>the flag says whether the previous character was a letter\<close>
  "sample_title_from prev [] = []"
| "sample_title_from prev (c # cs) =
     (if isupper c \<or> islower c
      then (if prev then lower_char c else upper_char c) # sample_title_from True cs
      else c # sample_title_from False cs)"

definition sample_title :: "string \<Rightarrow> string" where
  \<comment> \<open>\<open>str.title\<close> on text whose letters are the 52 unaccented ones\<close>
  "sample_title s = sample_title_from False s"

definition sample_finditer :: "string \<Rightarrow> string \<Rightarrow> (nat \<times> nat) list" where
  "sample_finditer pattern txt =
     (if pattern = wb @ ''led'' @ wb \<and> txt = ''led'' then [(0, 3)]
      else if pattern = wb @ ''led'' @ wb \<and> txt = ''led led led led''
        then [(0, 3), (4, 7), (8, 11), (12, 15)]
      else if pattern = wb @ ''leadership'' @ wb \<and> txt = ''leadership'' then [(0, 10)]
      else if pattern = wb @ ''python'' @ wb \<and> txt = ''python docker sql aws'' then [(0, 6)]
      else if pattern = wb @ ''docker'' @ wb \<and> txt = ''python docker sql aws'' then [(7, 13)]
      else if pattern = wb @ ''sql'' @ wb \<and> txt = ''python docker sql aws'' then [(14, 17)]
      else if pattern = wb @ ''aws'' @ wb \<and> txt = ''python docker sql aws'' then [(18, 21)]
      else [])"

definition sample_str_float :: "real \<Rightarrow> string" where
  "sample_str_float x =
     (if x = 0.63 then ''0.63'' else if x = 0.53 then ''0.53'' else ''0.0'')"

definition sample_ext :: externals where
  "sample_ext =
     \<lparr>normalize_skill = sample_normalize,
      COMMON_SKILLS = [''python'', ''docker'', ''sql'', ''aws'', ''leadership''],
      re_finditer = sample_finditer,
      re_escape = (\<lambda>s. s),
      get_learning_resources = (\<lambda>names. []),
      str_float = sample_str_float,
      str_title = sample_title,
      float_sum = sum_list\<rparr>"

definition sample_doc :: "string \<Rightarrow> string \<Rightarrow> SourceDocument" where
  "sample_doc nm txt =
     \<lparr>doc_name = nm, doc_kind = ''resume'', doc_text = txt, visibility = ''private'',
      origin = ''manual''\<rparr>"

definition sample_entry :: registry_entry where
  "sample_entry =
     \<lparr>entry_name = ''python'', entry_category = ''Technical Foundation'', entry_type = ''explicit'',
      entry_sources = [''cv''], snippets = [], mentions = 1\<rparr>"

definition team_text :: string where
  \<comment> \<open>\<open>"Asha: cloud, security\nBadLine\nKofi: python"\<close>\<close>
  "team_text = ''Asha: cloud, security'' @ [CHR 0x0A] @ ''BadLine'' @ [CHR 0x0A] @ ''Kofi: python''"

definition sample_stats :: ProfileStats where
  "sample_stats =
     \<lparr>source_count = 1, explicit_count = 1, implicit_count = 1,
      category_distribution = [(''Technical Foundation'', 1), (''Leadership & Impact'', 1)],
      framework_alignment = [], avg_confidence = 0.58,
      sources_visibility = [(''private'', 1)], top_sources = [''cv'']\<rparr>"

definition sample_profile :: SkillProfile where
  "sample_profile =
     \<lparr>signals =
        [\<lparr>name = ''python'', category = ''Technical Foundation'', signal_type = ''explicit'',
          confidence = 0.63, sources = [''cv''], evidence = []\<rparr>,
         \<lparr>name = ''leadership'', category = ''Leadership & Impact'', signal_type = ''implicit'',
          confidence = 0.53, sources = [''cv''],
          evidence = [\<lparr>source = ''cv'', snippet = ''led''\<rparr>]\<rparr>],
      stats = sample_stats,
      summary = []\<rparr>"

definition sample_candidate :: SkillProfile where
  "sample_candidate =
     \<lparr>signals =
        [\<lparr>name = ''python'', category = ''Technical Foundation'', signal_type = ''explicit'',
          confidence = 0.63, sources = [''cv''], evidence = []\<rparr>,
         \<lparr>name = ''docker'', category = ''Technical Foundation'', signal_type = ''explicit'',
          confidence = 0.63, sources = [''cv''], evidence = []\<rparr>,
         \<lparr>name = ''sql'', category = ''Technical Foundation'', signal_type = ''explicit'',
          confidence = 0.63, sources = [''cv''], evidence = []\<rparr>],
      stats = sample_stats,
      summary = []\<rparr>"

definition folding_normalize :: "string \<Rightarrow> string" where
  "folding_normalize s =
     filter (\<lambda>c. let n = (of_char c :: nat)
                  in (48 \<le> n \<and> n \<le> 57) \<or> (97 \<le> n \<and> n \<le> 122) \<or> n = 32)
            (lower (strip s))"

definition folding_ext :: externals where
  "folding_ext = sample_ext\<lparr>normalize_skill := folding_normalize\<rparr>"

definition separate_ext :: externals where
  \<comment> \<open>the sample externals with a lexicon that shares no key with the implicit skills\<close>
  "separate_ext = sample_ext\<lparr>COMMON_SKILLS := [''python'', ''docker'', ''sql'', ''aws'']\<rparr>"

section \<open>Auxiliary facts\<close>

subsection \<open>Results and totality\<close>

lemma bind_result_Inr [simp]: "bind_result (Inr v) f = f v"
  by (simp add: bind_result_def)

lemma bind_result_Inl [simp]: "bind_result (Inl e) f = Inl e"
  by (simp add: bind_result_def)

lemma map_result_Inr:
  "(\<And>x. x \<in> set xs \<Longrightarrow> f x = Inr (g x)) \<Longrightarrow> map_result f xs = Inr (map g xs)"
  by (induction xs) simp_all

lemma framework_coverage_Inr:
  "framework_coverage cov ts =
     Inr (if ts \<noteq> []
          then float_round (real (length (filter (\<lambda>k. k \<in> set ts) cov)) / real (length ts))
          else 0)"
  by (simp add: framework_coverage_def py_truediv_def)

lemma framework_entry_Inr: "\<exists>a. framework_entry ext sigs item = Inr a"
  by (cases item) (simp add: framework_entry_def framework_coverage_Inr Let_def)

lemma map_framework_entry_Inr:
  "map_result (framework_entry ext sigs) fw = Inr (map (\<lambda>x. projr (framework_entry ext sigs x)) fw)"
proof (rule map_result_Inr)
  fix x
  show "framework_entry ext sigs x = Inr (projr (framework_entry ext sigs x))"
    using framework_entry_Inr [of ext sigs x] by auto
qed

lemma profile_stats_for_Inr: "\<exists>st. profile_stats_for fw ext sigs srcs = Inr st"
  by (simp add: profile_stats_for_def Let_def py_truediv_real_def map_framework_entry_Inr)

lemma build_skill_profile_Inr:
  "\<exists>p. build_skill_profile ext srcs = Inr p \<and>
       signals p = finalize_registry (build_registry ext srcs) \<and>
       profile_stats ext (signals p) (nonblank_sources srcs) = Inr (stats p)"
proof -
  obtain st where
    "profile_stats ext (finalize_registry (build_registry ext srcs)) (nonblank_sources srcs) = Inr st"
    using profile_stats_for_Inr unfolding profile_stats_def by blast
  then show ?thesis by (simp add: build_skill_profile_def Let_def)
qed

subsection \<open>Rounding to two decimals\<close>

lemma py_round2_cases:
  "py_round2 x = of_int \<lfloor>x * 100\<rfloor> / 100 \<or>
   (py_round2 x = of_int (\<lfloor>x * 100\<rfloor> + 1) / 100 \<and> 1 / 2 \<le> x * 100 - of_int \<lfloor>x * 100\<rfloor>)"
  by (auto simp: py_round2_def Let_def)

lemma py_round2_le:
  assumes "x \<le> of_int k / 100"
  shows "py_round2 x \<le> of_int k / 100"
proof -
  have xk: "x * 100 \<le> of_int k" using assms by simp
  then have fk: "\<lfloor>x * 100\<rfloor> \<le> k" by (simp add: floor_le_iff)
  from py_round2_cases [of x] show ?thesis
  proof
    assume "py_round2 x = of_int \<lfloor>x * 100\<rfloor> / 100"
    with fk show ?thesis by simp
  next
    assume h: "py_round2 x = of_int (\<lfloor>x * 100\<rfloor> + 1) / 100 \<and> 1 / 2 \<le> x * 100 - of_int \<lfloor>x * 100\<rfloor>"
    then have "of_int \<lfloor>x * 100\<rfloor> < x * 100" by linarith
    with xk have "of_int \<lfloor>x * 100\<rfloor> < (of_int k :: real)" by linarith
    then have "\<lfloor>x * 100\<rfloor> + 1 \<le> k" by linarith
    then have "(of_int (\<lfloor>x * 100\<rfloor> + 1) :: real) \<le> of_int k" by (simp only: of_int_le_iff)
    with h show ?thesis by simp
  qed
qed

lemma py_round2_ge:
  assumes "of_int k / 100 \<le> x"
  shows "of_int k / 100 \<le> py_round2 x"
proof -
  have "of_int k \<le> x * 100" using assms by simp
  then have fk: "k \<le> \<lfloor>x * 100\<rfloor>" by (simp add: le_floor_iff)
  then have "(of_int k :: real) \<le> of_int \<lfloor>x * 100\<rfloor>" by (simp only: of_int_le_iff)
  with py_round2_cases [of x] show ?thesis by auto
qed

lemma py_round2_near:
  assumes "of_int k - 1 / 2 < x * 100" "x * 100 < of_int k + 1 / 2"
  shows "py_round2 x = of_int k / 100"
proof (cases "of_int k \<le> x * 100")
  case True
  then have "\<lfloor>x * 100\<rfloor> = k" using assms by (simp add: floor_eq_iff)
  then show ?thesis using assms by (simp add: py_round2_def Let_def)
next
  case False
  then have f: "\<lfloor>x * 100\<rfloor> = k - 1" using assms by (simp add: floor_eq_iff)
  have "1 / 2 < x * 100 - of_int (k - 1)" using assms by simp
  then show ?thesis using f by (simp add: py_round2_def Let_def)
qed

subsection \<open>Float division\<close>

lemma float_round_zero: "float_round 0 = 0"
  by (simp add: float_round_def)

lemma nearest_int_dist:
  fixes m :: real
  defines "f \<equiv> \<lfloor>m\<rfloor>"
  defines "r \<equiv> (if m - of_int f < 1 / 2 then of_int f
                else if 1 / 2 < m - of_int f then of_int (f + 1)
                else if even f then of_int f else of_int (f + 1) :: real)"
  shows "\<bar>r - m\<bar> \<le> 1 / 2"
proof -
  have "of_int f \<le> m" "m < of_int f + 1" unfolding f_def by linarith+
  then show ?thesis unfolding r_def by (auto simp: abs_if)
qed

lemma float_round_error:
  assumes "0 < x"
  shows "\<bar>float_round x - x\<bar> \<le> x / 2 ^ 53"
proof -
  define e where "e = \<lfloor>log 2 \<bar>x\<bar>\<rfloor>"
  define u :: real where "u = 2 powr (of_int e - 52)"
  define m where "m = x / u"
  define r where "r = (if m - of_int \<lfloor>m\<rfloor> < 1 / 2 then of_int \<lfloor>m\<rfloor>
                else if 1 / 2 < m - of_int \<lfloor>m\<rfloor> then of_int (\<lfloor>m\<rfloor> + 1)
                else if even \<lfloor>m\<rfloor> then of_int \<lfloor>m\<rfloor> else of_int (\<lfloor>m\<rfloor> + 1) :: real)"
  have u: "0 < u" by (simp add: u_def)
  have fr: "float_round x = r * u"
    using assms by (simp add: float_round_def Let_def r_def m_def u_def e_def)
  have d: "\<bar>r - m\<bar> \<le> 1 / 2" unfolding r_def by (rule nearest_int_dist)
  have "r * u - x = (r - m) * u" using u by (simp add: m_def algebra_simps)
  then have "\<bar>r * u - x\<bar> = \<bar>r - m\<bar> * u" using u by (simp add: abs_mult)
  also have "\<dots> \<le> (1 / 2) * u" using d u by (intro mult_right_mono) simp_all
  finally have b1: "\<bar>float_round x - x\<bar> \<le> u / 2" by (simp add: fr)
  have "of_int e \<le> log 2 x" using assms by (simp add: e_def)
  then have "2 powr (of_int e) \<le> x" using assms by (simp add: le_log_iff)
  moreover have "u = 2 powr (of_int e) / 2 ^ 52"
    by (simp add: u_def powr_diff)
  ultimately have "u \<le> x / 2 ^ 52" by (simp add: divide_right_mono)
  with b1 show ?thesis by simp
qed

lemma float_round_near:
  assumes "0 < q" "q \<le> 1" "of_int j - 49 / 100 \<le> q * 100" "q * 100 \<le> of_int j + 49 / 100"
  shows "py_round2 (float_round q) = of_int j / 100"
proof -
  have "\<bar>float_round q - q\<bar> \<le> q / 2 ^ 53" using assms(1) by (rule float_round_error)
  also have "\<dots> \<le> 1 / 2 ^ 53" using assms(2) by (simp add: divide_right_mono)
  finally have "\<bar>float_round q - q\<bar> \<le> 1 / 100000" by simp
  then have lo: "q * 100 - 1 / 1000 \<le> float_round q * 100"
    and hi: "float_round q * 100 \<le> q * 100 + 1 / 1000"
    by linarith+
  show ?thesis
  proof (rule py_round2_near)
    show "of_int j - 1 / 2 < float_round q * 100" using lo assms(3) by linarith
    show "float_round q * 100 < of_int j + 1 / 2" using hi assms(4) by linarith
  qed
qed

lemma py_round2_dist: "\<exists>j. py_round2 y = of_int j / 100 \<and> \<bar>y * 100 - of_int j\<bar> \<le> 1 / 2"
proof -
  have b: "of_int \<lfloor>y * 100\<rfloor> \<le> y * 100" "y * 100 < of_int \<lfloor>y * 100\<rfloor> + 1" by linarith+
  show ?thesis
  proof (cases "y * 100 - of_int \<lfloor>y * 100\<rfloor> < 1 / 2")
    case True
    then have "py_round2 y = of_int \<lfloor>y * 100\<rfloor> / 100" by (simp add: py_round2_def Let_def)
    moreover have "\<bar>y * 100 - of_int \<lfloor>y * 100\<rfloor>\<bar> \<le> 1 / 2" using True b by linarith
    ultimately show ?thesis by blast
  next
    case False
    show ?thesis
    proof (cases "1 / 2 < y * 100 - of_int \<lfloor>y * 100\<rfloor>")
      case True
      then have "py_round2 y = of_int (\<lfloor>y * 100\<rfloor> + 1) / 100" using False by (simp add: py_round2_def Let_def)
      moreover have "\<bar>y * 100 - of_int (\<lfloor>y * 100\<rfloor> + 1)\<bar> \<le> 1 / 2" using True b by simp
      ultimately show ?thesis by blast
    next
      case f2: False
      with False have eq: "y * 100 - of_int \<lfloor>y * 100\<rfloor> = 1 / 2" by linarith
      have "py_round2 y = of_int \<lfloor>y * 100\<rfloor> / 100 \<or> py_round2 y = of_int (\<lfloor>y * 100\<rfloor> + 1) / 100"
        by (simp add: py_round2_def Let_def)
      moreover have "\<bar>y * 100 - of_int \<lfloor>y * 100\<rfloor>\<bar> \<le> 1 / 2" using eq by linarith
      moreover have "\<bar>y * 100 - of_int (\<lfloor>y * 100\<rfloor> + 1)\<bar> \<le> 1 / 2" using eq by simp
      ultimately show ?thesis by blast
    qed
  qed
qed

lemma round2_quotient:
  fixes k n :: nat
  assumes "0 < n" "k \<le> n" "n < 2 ^ 45"
  shows "\<exists>j. py_round2 (float_round (real k / real n)) = of_int j / 100 \<and>
             \<bar>of_int j / 100 - real k / real n\<bar> \<le> 1 / 200"
proof -
  define q where "q = real k / real n"
  define y where "y = float_round q"
  obtain j where j: "py_round2 y = of_int j / 100" "\<bar>y * 100 - of_int j\<bar> \<le> 1 / 2"
    using py_round2_dist by blast
  have q1: "0 \<le> q" "q \<le> 1" using assms by (simp_all add: q_def)
  have err: "\<bar>y - q\<bar> \<le> 1 / 2 ^ 53"
  proof (cases "q = 0")
    case True
    then show ?thesis by (simp add: y_def float_round_zero)
  next
    case False
    with q1 have "0 < q" by simp
    then have "\<bar>float_round q - q\<bar> \<le> q / 2 ^ 53" by (rule float_round_error)
    also have "\<dots> \<le> 1 / 2 ^ 53" using q1 by (simp add: divide_right_mono)
    finally show ?thesis by (simp add: y_def)
  qed
  have n: "0 < real n" "real n < 2 ^ 45" using assms by simp_all
  have d: "\<bar>q * 100 - of_int j\<bar> \<le> 1 / 2 + 100 / 2 ^ 53"
    using j(2) err by (simp add: abs_if split: if_splits)
  have qn: "q * real n = real k" using n by (simp add: q_def)
  have "\<bar>q * 100 - of_int j\<bar> * (2 * real n) = \<bar>(q * 100 - of_int j) * (2 * real n)\<bar>"
    using n by (simp add: abs_mult)
  also have "(q * 100 - of_int j) * (2 * real n) = 200 * real k - 2 * of_int j * real n"
    using qn by (simp add: algebra_simps)
  finally have e1: "\<bar>200 * real k - 2 * of_int j * real n\<bar> = \<bar>q * 100 - of_int j\<bar> * (2 * real n)" by simp
  have "\<bar>q * 100 - of_int j\<bar> * (2 * real n) \<le> (1 / 2 + 100 / 2 ^ 53) * (2 * real n)"
    using d n by (intro mult_right_mono) simp_all
  also have "\<dots> = real n + real n * (200 / 2 ^ 53)" by (simp add: algebra_simps)
  also have "\<dots> < real n + 1"
  proof -
    have "real n * (200 / 2 ^ 53) < 2 ^ 45 * (200 / 2 ^ 53)" using n by (intro mult_strict_right_mono) simp_all
    also have "\<dots> \<le> (1 :: real)" by simp
    finally show ?thesis by simp
  qed
  finally have e2: "\<bar>200 * real k - 2 * of_int j * real n\<bar> < real n + 1" by (simp add: e1)
  define z :: int where "z = 200 * int k - 2 * j * int n"
  have zr: "real_of_int z = 200 * real k - 2 * of_int j * real n" by (simp add: z_def)
  have "real_of_int \<bar>z\<bar> < real_of_int (int n + 1)" using e2 by (simp add: zr [symmetric])
  then have "\<bar>z\<bar> < int n + 1" by (simp only: of_int_less_iff)
  then have "\<bar>z\<bar> \<le> int n" by simp
  then have "real_of_int \<bar>z\<bar> \<le> real n" by (metis of_int_le_iff of_int_of_nat_eq)
  then have "\<bar>q * 100 - of_int j\<bar> * (2 * real n) \<le> real n" by (simp add: e1 [symmetric] zr [symmetric])
  then have "\<bar>q * 100 - of_int j\<bar> \<le> 1 / 2" using n by (simp add: field_simps)
  then have "\<bar>of_int j / 100 - q\<bar> \<le> 1 / 200" by (simp add: abs_if field_simps split: if_splits)
  with j(1) show ?thesis unfolding y_def q_def by blast
qed

lemma float_round_1_40: "py_round2 (float_round (1 / 40)) = 3 / 100"
proof -
  have e: "\<lfloor>log 2 \<bar>1 / 40 :: real\<bar>\<rfloor> = - 6"
    by (simp add: floor_log_eq_powr_iff powr_neg_numeral)
  have u: "(2 :: real) powr (of_int (- 6) - 52) = 1 / 2 ^ 58"
    using powr_neg_numeral [of "2 :: real" "num.Bit0 (num.Bit1 (num.Bit0 (num.Bit1 (num.Bit1 num.One))))"] by simp
  have m: "\<lfloor>(1 / 40 :: real) / (1 / 2 ^ 58)\<rfloor> = 7205759403792793"
    by (simp add: floor_eq_iff)
  have "float_round (1 / 40) = 7205759403792794 / 2 ^ 58"
    unfolding float_round_def Let_def e u m by simp
  then show ?thesis by (simp add: py_round2_near [of 3])
qed

subsection \<open>Bounds on logarithms\<close>

lemma exp_twelfth: "exp (1 / 12 :: real) \<le> 157 / 144"
  using exp_bound [of "1 / 12 :: real"] by (simp add: power2_eq_square)

lemma ln2_lower: "2 / 3 \<le> ln (2 :: real)"
proof -
  have "exp (2 / 3 :: real) = exp (1 / 12) ^ 8"
    by (simp add: exp_of_nat_mult [symmetric])
  also have "\<dots> \<le> (157 / 144) ^ 8"
    by (rule power_mono [OF exp_twelfth]) simp
  also have "\<dots> \<le> (2 :: real)" by (simp add: power_divide)
  finally have "exp (2 / 3 :: real) \<le> exp (ln 2)" by simp
  then show ?thesis by (simp only: exp_le_cancel_iff)
qed

lemma ln2_upper: "ln (2 :: real) < 17 / 24"
proof -
  have "(1 :: real) + 17 / 48 + (17 / 48)\<^sup>2 / 2 \<le> exp (17 / 48)"
    by (rule exp_lower_Taylor_quadratic) simp
  then have a: "(6529 / 4608 :: real) \<le> exp (17 / 48)" by (simp add: power2_eq_square)
  have "(2 :: real) < (6529 / 4608) ^ 2" by (simp add: power2_eq_square)
  also have "\<dots> \<le> exp (17 / 48) ^ 2" by (rule power_mono [OF a]) simp
  also have "\<dots> = exp (17 / 24 :: real)" by (simp add: exp_of_nat_mult [symmetric])
  finally have "exp (ln 2) < exp (17 / 24 :: real)" by simp
  then show ?thesis by (simp only: exp_less_cancel_iff)
qed

subsection \<open>Scoring and finalisation\<close>

lemma entry_confidence_spec:
  "entry_confidence e = spec_confidence (entry_type e) (mentions e) (length (entry_sources e))"
proof -
  have "real_of_int (max 0 (int (length (entry_sources e)) - 1)) = max 0 (real (length (entry_sources e)) - 1)"
    by (cases "entry_sources e") (simp_all add: max_def)
  then show ?thesis
    by (simp add: entry_confidence_def spec_confidence_def Let_def)
qed

lemma entry_confidence_bounds: "45 / 100 \<le> entry_confidence e \<and> entry_confidence e \<le> 98 / 100"
proof -
  define mb where "mb = min 0.35 (0.12 * ln (1 + real (mentions e)))"
  define sb where "sb = min 0.2 (0.08 * real_of_int (max 0 (int (length (entry_sources e)) - 1)))"
  define base :: real where "base = (if entry_type e = ''explicit'' then 0.55 else 0.45)"
  define x where "x = min 0.98 (base + mb + sb)"
  have c: "entry_confidence e = py_round2 x"
    by (simp add: entry_confidence_def Let_def x_def mb_def sb_def base_def)
  have "0 \<le> ln (1 + real (mentions e))" by simp
  then have mb: "0 \<le> mb" by (simp add: mb_def)
  have sb: "0 \<le> sb" by (simp add: sb_def)
  have base: "0.45 \<le> base" by (simp add: base_def)
  have lo: "real_of_int 45 / 100 \<le> x" using mb sb base by (simp add: x_def)
  have "x \<le> 0.98" unfolding x_def by (rule min.cobounded1)
  then have hi: "x \<le> real_of_int 98 / 100" by simp
  from py_round2_ge [OF lo] py_round2_le [OF hi] c show ?thesis by simp
qed

lemma entry_confidence_example:
  assumes "entry_type e = ''explicit''" "mentions e = 1" "length (entry_sources e) = 1"
  shows "entry_confidence e = 63 / 100"
proof -
  have x: "entry_confidence e = py_round2 (0.55 + 0.12 * ln 2)"
    using assms ln2_lower ln2_upper by (simp add: entry_confidence_def Let_def min_def)
  have "py_round2 (0.55 + 0.12 * ln 2) = real_of_int 63 / 100"
    by (rule py_round2_near) (use ln2_lower ln2_upper in simp_all)
  with x show ?thesis by simp
qed

lemma set_py_sorted_reverse: "set (py_sorted_reverse f xs) = set xs"
  by (simp add: py_sorted_reverse_def)

lemma set_finalize_registry:
  "set (finalize_registry registry) = (\<lambda>(key, entry). finalize_entry entry) ` set registry"
  by (simp add: finalize_registry_def set_py_sorted_reverse)



lemma evidence_finalize_entry: "length (evidence (finalize_entry e)) \<le> 3"
  by (simp add: finalize_entry_def py_slice_to_def)

subsection \<open>Evaluating the sample data\<close>

lemmas eval_loops =
  build_registry_def nonblank_sources_def register_explicit_def register_implicit_def
  match_skill_occurrences_def IMPLICIT_PATTERNS_def IMPLICIT_CATEGORY_def dict_get_def Let_def
  sample_ext_def sample_finditer_def sample_doc_def job_source_def strip_def isspace_def
  lower_def lower_char_def isupper_def islower_def wb_def

lemmas eval_register =
  register_signal_def new_entry_def snippet_at_def dict_get_def Let_def sample_ext_def
  sample_normalize_def strip_def isspace_def lower_def lower_char_def isupper_def islower_def
  replace_newlines_def

lemma sample_registry_led4:
  "build_registry sample_ext [sample_doc ''cv'' ''led led led led''] =
     [(''leadership'',
       \<lparr>entry_name = ''leadership'', entry_category = ''Leadership & Impact'',
        entry_type = ''implicit'', entry_sources = [''cv''],
        snippets =
          [\<lparr>source = ''cv'', snippet = ''led led led led''\<rparr>,
           \<lparr>source = ''cv'', snippet = ''led led led led''\<rparr>,
           \<lparr>source = ''cv'', snippet = ''led led led led''\<rparr>,
           \<lparr>source = ''cv'', snippet = ''led led led led''\<rparr>],
        mentions = 4\<rparr>)]"
  apply (simp add: eval_loops)
  apply (simp add: eval_register)
  done

subsection \<open>Parsing a team inventory\<close>

lemma split_char_once_colon:
  assumes "c \<in> set line"
  shows "split_char_once c line = [takeWhile (\<lambda>x. x \<noteq> c) line, tl (dropWhile (\<lambda>x. x \<noteq> c) line)]"
proof -
  from assms have "dropWhile (\<lambda>x. x \<noteq> c) line \<noteq> []" by (simp add: dropWhile_eq_Nil_conv)
  then show ?thesis by (cases "dropWhile (\<lambda>x. x \<noteq> c) line") (simp_all add: split_char_once_def)
qed

lemma parse_team_line_spec: "parse_team_line line = Inr (spec_team_line line)"
proof (cases "CHR '':'' \<in> set line")
  case True
  have "map strip (filter (\<lambda>skill. strip skill \<noteq> []) xs) = filter (\<lambda>s. s \<noteq> []) (map strip xs)" for xs
    by (induction xs) simp_all
  then show ?thesis using True
    by (simp add: parse_team_line_def spec_team_line_def split_char_once_colon unpack2_def Let_def)
next
  case False
  then show ?thesis by (simp add: parse_team_line_def spec_team_line_def)
qed

lemma parse_team_lines_spec: "parse_team_lines ls = Inr (List.map_filter spec_team_line ls)"
  by (induction ls) (simp_all add: parse_team_line_spec List.map_filter_simps split: option.splits)

lemma parse_team_profiles_spec: "parse_team_profiles txt = Inr (spec_team_members txt)"
  by (simp add: parse_team_profiles_def spec_team_members_def parse_team_lines_spec splitlines_def
      List.map_filter_simps)

lemma splitlines_team_text:
  "splitlines team_text = [''Asha: cloud, security'', ''BadLine'', ''Kofi: python'']"
  by (simp add: team_text_def splitlines_def is_linebreak_def)

lemma team_example:
  "spec_team_members team_text =
     [\<lparr>member_name = ''Asha'', skills = [''cloud'', ''security'']\<rparr>,
      \<lparr>member_name = ''Kofi'', skills = [''python'']\<rparr>]"
  by (simp add: spec_team_members_def splitlines_team_text List.map_filter_simps spec_team_line_def
      strip_def isspace_def Let_def)

subsection \<open>Highlights\<close>

lemma cv_bullet_Inr:
  "cv_bullet ext s =
     Inr (let bullet = str_title ext (name s) @ '' ('' @ category s @ '') - confidence '' @ str_float ext (confidence s)
          in if evidence s \<noteq> [] \<and> snippet (evidence s ! 0) \<noteq> []
             then bullet @ ''; evidence: '' @ py_slice_to (snippet (evidence s ! 0)) 120 @ ''...''
             else bullet)"
  by (simp add: cv_bullet_def py_index_def Let_def)

lemma generate_cv_highlights_Inr:
  "generate_cv_highlights ext prof limit =
     Inr (map (\<lambda>s. projr (cv_bullet ext s)) (py_slice_to (signals prof) limit))"
  unfolding generate_cv_highlights_def
  by (rule map_result_Inr) (simp add: cv_bullet_Inr)

lemma title_python: "sample_title ''python'' = ''Python''"
  by code_simp

lemma sample_highlights_negative: "generate_cv_highlights sample_ext sample_profile (- 1) =
     Inr [''Python (Technical Foundation) - confidence 0.63'']"
  by (simp add: generate_cv_highlights_Inr py_slice_to_def sample_profile_def cv_bullet_Inr title_python
      sample_ext_def sample_str_float_def)

subsection \<open>Skill mappings\<close>

lemma update_fresh: "k \<notin> fst ` set al \<Longrightarrow> AList.update k v al = al @ [(k, v)]"
  by (induction al) auto

lemma fold_update_distinct:
  "distinct (map key xs) \<Longrightarrow> key ` set xs \<inter> fst ` set acc = {} \<Longrightarrow>
   fold (\<lambda>s d. AList.update (key s) s d) xs acc = acc @ map (\<lambda>s. (key s, s)) xs"
proof (induction xs arbitrary: acc)
  case Nil
  then show ?case by simp
next
  case (Cons x xs)
  from Cons.prems have fresh: "key x \<notin> fst ` set acc" by auto
  have "fold (\<lambda>s d. AList.update (key s) s d) xs (acc @ [(key x, x)]) = (acc @ [(key x, x)]) @ map (\<lambda>s. (key s, s)) xs"
    using Cons.prems by (intro Cons.IH) auto
  then show ?case using fresh by (simp add: update_fresh)
qed

lemma as_skill_set_distinct:
  "distinct (map (\<lambda>s. normalize_skill ext (name s)) sigs) \<Longrightarrow>
   as_skill_set ext sigs = map (\<lambda>s. (normalize_skill ext (name s), s)) sigs"
  unfolding as_skill_set_def
  using fold_update_distinct [of "\<lambda>s. normalize_skill ext (name s)" sigs "[]"] by simp

lemma dom_fold_update:
  "fst ` set (fold (\<lambda>s d. AList.update (key s) s d) xs acc) = fst ` set acc \<union> key ` set xs"
proof (induction xs arbitrary: acc)
  case Nil
  then show ?case by simp
next
  case (Cons x xs)
  have "fst ` set (AList.update (key x) x acc) = insert (key x) (fst ` set acc)"
    using dom_update [of "key x" x acc] by (simp add: dom_map_of_conv_image_fst)
  then show ?case by (simp add: Cons.IH)
qed

lemma keys_as_skill_set:
  "fst ` set (as_skill_set ext sigs) = (\<lambda>s. normalize_skill ext (name s)) ` set sigs"
  unfolding as_skill_set_def by (simp add: dom_fold_update)

lemma dict_contains_as_skill_set:
  "dict_contains (as_skill_set ext sigs) k \<longleftrightarrow> k \<in> (\<lambda>s. normalize_skill ext (name s)) ` set sigs"
  unfolding dict_contains_def
  using keys_as_skill_set [of ext sigs]
  by (metis domIff dom_map_of_conv_image_fst)

lemma skillset_names_distinct:
  assumes "distinct (map key sigs)" "set ss \<subseteq> set sigs"
  shows "skillset_names (map (\<lambda>s. (key s, s)) sigs) (map key ss) = Inr (map name ss)"
  using assms(2)
proof (induction ss)
  case Nil
  then show ?case by (simp add: skillset_names_def)
next
  case (Cons s ss)
  from Cons.prems have "s \<in> set sigs" by simp
  with assms(1) have "map_of (map (\<lambda>s. (key s, s)) sigs) (key s) = Some s"
    by (intro map_of_is_SomeI) (auto simp: comp_def)
  with Cons show ?case by (simp add: skillset_names_def dict_getitem_def)
qed

lemma compare_empty_team:
  assumes "distinct (map (\<lambda>s. normalize_skill ext (name s)) (signals prof))"
  shows "compare_against_team ext prof [] =
     Inr \<lparr>team_size = 0, team_skill_coverage = 0,
          unique_strengths = sort (map name (signals prof)), team_gaps = []\<rparr>"
proof -
  let ?key = "\<lambda>s. normalize_skill ext (name s)"
  have a: "as_skill_set ext (signals prof) = map (\<lambda>s. (?key s, s)) (signals prof)"
    using assms by (rule as_skill_set_distinct)
  have b: "py_set (map fst (as_skill_set ext (signals prof))) = map ?key (signals prof)"
    using assms by (simp add: a py_set_def comp_def)
  have c: "skillset_names (map (\<lambda>s. (?key s, s)) (signals prof)) (map ?key (signals prof)) = Inr (map name (signals prof))"
    using assms by (intro skillset_names_distinct) auto
  show ?thesis
    unfolding compare_against_team_def Let_def b by (simp add: a c)
qed

subsection \<open>The registry invariant\<close>

lemma set_update_subset:
  "set (AList.update k v al) \<subseteq> insert (k, v) (set al)"
  by (induction al) auto

lemma register_signal_ok:
  assumes "registry_ok ext reg"
  shows "registry_ok ext (register_signal ext reg nm cat ty src sn)"
proof -
  let ?k = "normalize_skill ext nm"
  let ?e = "dict_get reg ?k (new_entry nm cat ty)"
  have e: "normalize_skill ext (entry_name ?e) = ?k \<and> distinct (entry_sources ?e)"
  proof (cases "map_of reg ?k")
    case None
    then show ?thesis by (simp add: dict_get_def new_entry_def)
  next
    case (Some e)
    then have "(?k, e) \<in> set reg" by (rule map_of_SomeD)
    with assms Some show ?thesis by (auto simp: dict_get_def registry_ok_def)
  qed
  obtain e' where r: "register_signal ext reg nm cat ty src sn = AList.update ?k e' reg"
    and e': "entry_name e' = entry_name ?e" "set (entry_sources e') = insert (doc_name src) (set (entry_sources ?e))"
      "distinct (entry_sources e')"
    using e by (cases sn) (auto simp: register_signal_def Let_def)
  have "distinct (map fst (AList.update ?k e' reg))"
    using assms by (simp add: registry_ok_def distinct_update)
  moreover have "\<forall>(k, e) \<in> set (AList.update ?k e' reg). normalize_skill ext (entry_name e) = k \<and> distinct (entry_sources e)"
    using set_update_subset [of ?k e' reg] assms e e' by (auto simp: registry_ok_def)
  ultimately show ?thesis by (simp add: r registry_ok_def)
qed

lemma fold_ok:
  assumes "\<And>x r. P r \<Longrightarrow> P (f x r)" "P r"
  shows "P (fold f xs r)"
  using assms(2) by (induction xs arbitrary: r) (simp_all add: assms(1))

lemma register_explicit_ok: "registry_ok ext reg \<Longrightarrow> registry_ok ext (register_explicit ext src reg)"
  unfolding register_explicit_def
  by (intro fold_ok [where P = "registry_ok ext"]) (auto simp: register_signal_ok)

lemma register_implicit_ok: "registry_ok ext reg \<Longrightarrow> registry_ok ext (register_implicit ext src reg)"
  unfolding register_implicit_def Let_def
  by (intro fold_ok [where P = "registry_ok ext"])
     (auto intro!: fold_ok [where P = "registry_ok ext"] simp: register_signal_ok)

lemma registry_ok_Nil: "registry_ok ext []"
  by (simp add: registry_ok_def)

lemma build_registry_ok: "registry_ok ext (build_registry ext srcs)"
  unfolding build_registry_def
  by (intro fold_ok [where P = "registry_ok ext"])
     (simp_all add: register_explicit_ok register_implicit_ok registry_ok_Nil)

lemma distinct_map_py_sorted_reverse:
  "distinct (map g (py_sorted_reverse f xs)) \<longleftrightarrow> distinct (map g xs)"
  by (simp add: py_sorted_reverse_def distinct_map)

lemma finalize_registry_distinct:
  assumes "registry_ok ext reg"
  shows "distinct (map (\<lambda>s. normalize_skill ext (name s)) (finalize_registry reg))"
proof -
  have eq: "map (\<lambda>s. normalize_skill ext (name s)) (map (\<lambda>(key, entry). finalize_entry entry) reg) = map fst reg"
    using assms by (auto simp: registry_ok_def finalize_entry_def)
  from assms have "distinct (map fst reg)" by (simp add: registry_ok_def)
  then show ?thesis
    by (simp only: finalize_registry_def distinct_map_py_sorted_reverse eq)
qed

lemma build_signals_distinct:
  "distinct (map (\<lambda>s. normalize_skill ext (name s)) (finalize_registry (build_registry ext srcs)))"
  by (rule finalize_registry_distinct [OF build_registry_ok])

subsection \<open>Matching a job\<close>

lemma strip_Nil: "strip [] = []"
  by (simp add: strip_def)

lemma build_signals:
  assumes "build_skill_profile ext srcs = Inr p"
  shows "signals p = finalize_registry (build_registry ext srcs)"
  using assms build_skill_profile_Inr [of ext srcs] by auto

lemma blank_job_no_signals:
  assumes "strip job_text = []"
  shows "finalize_registry (build_registry ext [job_source job_text]) = []"
  using assms
  by (simp add: build_registry_def nonblank_sources_def job_source_def strip_Nil
      finalize_registry_def py_sorted_reverse_def)

lemma match_nonempty:
  assumes jp: "build_skill_profile ext [job_source job_text] = Inr jp" and ne: "signals jp \<noteq> []"
  shows "match_profile_to_job ext prof job_text =
     Inr (Some \<lparr>coverage =
                  py_round2 (float_round
                    (real (length (filter (\<lambda>s. dict_contains (as_skill_set ext (signals prof)) (normalize_skill ext (name s))) (signals jp)))
                     / real (length (signals jp)))),
                matched = sort (py_set (map name (filter (\<lambda>s. dict_contains (as_skill_set ext (signals prof)) (normalize_skill ext (name s))) (signals jp)))),
                gaps = sort (py_set (map name (filter (\<lambda>s. \<not> dict_contains (as_skill_set ext (signals prof)) (normalize_skill ext (name s))) (signals jp)))),
                recommendations = get_learning_resources ext
                  (map name (filter (\<lambda>s. \<not> dict_contains (as_skill_set ext (signals prof)) (normalize_skill ext (name s))) (signals jp))),
                raw_job_profile = jp\<rparr>)"
proof -
  let ?key = "\<lambda>s. normalize_skill ext (name s)"
  let ?J = "signals jp"
  let ?C = "as_skill_set ext (signals prof)"
  have J: "?J = finalize_registry (build_registry ext [job_source job_text])"
    using jp by (rule build_signals)
  have nonblank: "strip job_text \<noteq> []" "job_text \<noteq> []"
    using ne J blank_job_no_signals [of job_text ext] strip_Nil by auto
  have dist: "distinct (map ?key ?J)"
    unfolding J by (rule build_signals_distinct)
  have js: "as_skill_set ext ?J = map (\<lambda>s. (?key s, s)) ?J"
    using dist by (rule as_skill_set_distinct)
  have keys: "map fst (map (\<lambda>s. (?key s, s)) ?J) = map ?key ?J"
    by (simp add: comp_def)
  have f1: "filter Q (map ?key ?J) = map ?key (filter (\<lambda>s. Q (?key s)) ?J)" for Q
    by (simp add: filter_map comp_def)
  have n1: "skillset_names (map (\<lambda>s. (?key s, s)) ?J) (map ?key (filter R ?J)) = Inr (map name (filter R ?J))" for R
    using dist by (intro skillset_names_distinct) auto
  have len: "length ?J \<noteq> 0" using ne by simp
  show ?thesis
    unfolding match_profile_to_job_def jp bind_result_Inr Let_def js keys f1 n1
    using nonblank ne len by (simp add: py_truediv_def)
qed

lemma match_no_skills:
  assumes jp: "build_skill_profile ext [job_source job_text] = Inr jp" and e: "signals jp = []"
    and t: "strip job_text \<noteq> []"
  shows "match_profile_to_job ext prof job_text =
     Inr (Some \<lparr>coverage = 0, matched = [], gaps = [], recommendations = [], raw_job_profile = jp\<rparr>)"
proof -
  have "job_text \<noteq> []" using t strip_Nil by auto
  then show ?thesis
    using t e by (simp add: match_profile_to_job_def jp as_skill_set_def)
qed

lemma match_blank:
  assumes "job_text = [] \<or> strip job_text = []"
  shows "match_profile_to_job ext prof job_text = Inr None"
  using assms by (auto simp: match_profile_to_job_def)

lemma match_total: "\<exists>res. match_profile_to_job ext prof job_text = Inr res"
proof -
  obtain jp where jp: "build_skill_profile ext [job_source job_text] = Inr jp"
    using build_skill_profile_Inr by blast
  show ?thesis
  proof (cases "job_text = [] \<or> strip job_text = []")
    case True
    then show ?thesis by (simp add: match_blank)
  next
    case False
    then show ?thesis
      using match_nonempty [OF jp, of prof] match_no_skills [OF jp, of prof]
      by (cases "signals jp = []") auto
  qed
qed

lemma round2_three_quarters: "py_round2 (float_round (3 / 4)) = 75 / 100"
  using float_round_near [of "3 / 4" 75] by simp


lemma card_filter_distinct:
  assumes "distinct (map key xs)"
  shows "length (filter (\<lambda>s. key s \<in> K) xs) = card (key ` set xs \<inter> K)"
proof -
  have d: "distinct xs" using assms by (simp add: distinct_map)
  have inj: "inj_on key (set xs)" using assms by (simp add: distinct_map)
  have "key ` set xs \<inter> K = key ` {s \<in> set xs. key s \<in> K}" by auto
  moreover have "card (key ` {s \<in> set xs. key s \<in> K}) = card {s \<in> set xs. key s \<in> K}"
    by (rule card_image) (rule inj_on_subset [OF inj], auto)
  moreover have "length (filter (\<lambda>s. key s \<in> K) xs) = card {s \<in> set xs. key s \<in> K}"
    using d by (simp add: distinct_card [symmetric] distinct_filter)
  ultimately show ?thesis by simp
qed

lemma dict_contains_keys: "dict_contains d k \<longleftrightarrow> k \<in> fst ` set d"
  unfolding dict_contains_def by (metis domIff dom_map_of_conv_image_fst)

lemma skill_keys_image: "skill_keys ext sigs = (\<lambda>s. normalize_skill ext (name s)) ` set sigs"
  by (simp add: skill_keys_def keys_as_skill_set)

lemma sample_registry_hello: "build_registry sample_ext [job_source ''hello''] = []"
  apply (simp add: eval_loops)
  done

lemma sample_registry_job:
  "map fst (build_registry sample_ext [job_source ''python docker sql aws''])
     = [''python'', ''docker'', ''sql'', ''aws'']"
  apply (simp add: eval_loops)
  apply (simp add: eval_register)
  done

lemma keys_finalize_build:
  "skill_keys ext (finalize_registry (build_registry ext srcs)) = fst ` set (build_registry ext srcs)"
proof -
  have "registry_ok ext (build_registry ext srcs)" by (rule build_registry_ok)
  then have "(\<lambda>s. normalize_skill ext (name s)) ` (\<lambda>(key, entry). finalize_entry entry) ` set (build_registry ext srcs)
      = fst ` set (build_registry ext srcs)"
    by (force simp: registry_ok_def finalize_entry_def image_iff)
  then show ?thesis by (simp add: skill_keys_image set_finalize_registry)
qed

lemma job_match_sets:
  assumes jp: "build_skill_profile ext [job_source job_text] = Inr jp" and ne: "signals jp \<noteq> []"
  shows "\<exists>r. match_profile_to_job ext prof job_text = Inr (Some r) \<and>
     set (matched r) = {name s |s. s \<in> set (signals jp) \<and> normalize_skill ext (name s) \<in> skill_keys ext (signals prof)} \<and>
     set (gaps r) = {name s |s. s \<in> set (signals jp) \<and> normalize_skill ext (name s) \<notin> skill_keys ext (signals prof)} \<and>
     sorted (matched r) \<and> distinct (matched r) \<and> sorted (gaps r) \<and> distinct (gaps r) \<and>
     coverage r = py_round2 (float_round
                    (real (card (skill_keys ext (signals jp) \<inter> skill_keys ext (signals prof)))
                     / real (card (skill_keys ext (signals jp)))))"
proof -
  let ?key = "\<lambda>s. normalize_skill ext (name s)"
  let ?K = "skill_keys ext (signals prof)"
  have dc: "dict_contains (as_skill_set ext (signals prof)) k \<longleftrightarrow> k \<in> ?K" for k
    by (simp add: dict_contains_keys skill_keys_def)
  have J: "signals jp = finalize_registry (build_registry ext [job_source job_text])"
    using jp by (rule build_signals)
  have dist: "distinct (map ?key (signals jp))"
    unfolding J by (rule build_signals_distinct)
  have c1: "length (filter (\<lambda>s. ?key s \<in> ?K) (signals jp)) = card (skill_keys ext (signals jp) \<inter> ?K)"
    using card_filter_distinct [OF dist, of ?K] by (simp add: skill_keys_image)
  have c2: "length (signals jp) = card (skill_keys ext (signals jp))"
    using dist distinct_card [of "map ?key (signals jp)"] by (simp add: skill_keys_image)
  show ?thesis
    unfolding match_nonempty [OF jp ne, of prof] dc
    by (auto simp: py_set_def c1 c2)
qed

subsection \<open>Framework coverage\<close>




subsection \<open>Events and the order of documents\<close>

lemma fold_concat_lists: "fold f (concat xss) = fold (fold f) xss"
  by (induction xss) simp_all

lemma register_event_tuple:
  "register_event ext (src, nm, cat, ty, sn) = (\<lambda>reg. register_signal ext reg nm cat ty src sn)"
  by (simp add: fun_eq_iff register_event_def)

lemma register_explicit_events:
  "register_explicit ext src reg = fold (register_event ext) (map (Pair src) (explicit_events ext src)) reg"
  unfolding register_explicit_def explicit_events_def
  by (simp add: fold_concat_lists fold_map map_concat comp_def register_event_tuple case_prod_unfold)

lemma register_implicit_events:
  "register_implicit ext src reg = fold (register_event ext) (map (Pair src) (implicit_events ext src)) reg"
  unfolding register_implicit_def implicit_events_def Let_def
  by (simp add: fold_concat_lists fold_map map_concat comp_def register_event_tuple case_prod_unfold)

lemma build_registry_events:
  "build_registry ext srcs = fold (register_event ext) (batch_events ext srcs) []"
  unfolding build_registry_def batch_events_def
  by (simp add: fold_concat_lists fold_map comp_def register_explicit_events register_implicit_events)

lemma batch_events_append:
  "batch_events ext (xs @ ys) = batch_events ext xs @ batch_events ext ys"
  by (simp add: batch_events_def nonblank_sources_def)

lemma register_signal_entry:
  "\<exists>e. register_signal ext reg nm cat ty src sn = AList.update (normalize_skill ext nm) e reg \<and>
       mentions e = mentions (dict_get reg (normalize_skill ext nm) (new_entry nm cat ty)) + 1 \<and>
       set (entry_sources e) =
         insert (doc_name src) (set (entry_sources (dict_get reg (normalize_skill ext nm) (new_entry nm cat ty)))) \<and>
       entry_type e = entry_type (dict_get reg (normalize_skill ext nm) (new_entry nm cat ty))"
  by (cases sn) (auto simp: register_signal_def Let_def)

lemma keys_update: "fst ` set (AList.update k v al) = insert k (fst ` set al)"
  using dom_update [of k v al] by (simp add: dom_map_of_conv_image_fst)

lemma map_of_register_event:
  "\<exists>e. map_of (register_event ext item reg) = (map_of reg)(event_key ext item \<mapsto> e) \<and>
       fst ` set (register_event ext item reg) = insert (event_key ext item) (fst ` set reg) \<and>
       mentions e = key_mentions reg (event_key ext item) + 1 \<and>
       set (entry_sources e) = insert (doc_name (fst item)) (key_sources reg (event_key ext item)) \<and>
       entry_type e = (case map_of reg (event_key ext item) of
                         None \<Rightarrow> fst (snd (snd (snd item)))
                       | Some e0 \<Rightarrow> entry_type e0)"
proof -
  obtain src nm cat ty sn where item: "item = (src, nm, cat, ty, sn)" by (cases item) auto
  let ?k = "normalize_skill ext nm"
  let ?e0 = "dict_get reg ?k (new_entry nm cat ty)"
  from register_signal_entry [of ext reg nm cat ty src sn] obtain e where
    e: "register_signal ext reg nm cat ty src sn = AList.update ?k e reg"
      "mentions e = mentions ?e0 + 1"
      "set (entry_sources e) = insert (doc_name src) (set (entry_sources ?e0))"
      "entry_type e = entry_type ?e0"
    by blast
  have m: "mentions ?e0 = key_mentions reg ?k"
    by (cases "map_of reg ?k") (simp_all add: dict_get_def new_entry_def key_mentions_def)
  have s: "set (entry_sources ?e0) = key_sources reg ?k"
    by (cases "map_of reg ?k") (simp_all add: dict_get_def new_entry_def key_sources_def)
  have t: "entry_type ?e0 = (case map_of reg ?k of None \<Rightarrow> ty | Some e0 \<Rightarrow> entry_type e0)"
    by (cases "map_of reg ?k") (simp_all add: dict_get_def new_entry_def)
  show ?thesis
    unfolding item
    by (rule exI [of _ e])
       (simp add: register_event_def event_key_def e update_conv' keys_update m s t split: option.split)
qed

lemma key_mentions_step:
  "key_mentions (register_event ext item reg) k =
     key_mentions reg k + (if event_key ext item = k then 1 else 0)"
  using map_of_register_event [of ext item reg] by (auto simp: key_mentions_def)

lemma key_sources_step:
  "key_sources (register_event ext item reg) k =
     key_sources reg k \<union> (if event_key ext item = k then {doc_name (fst item)} else {})"
  using map_of_register_event [of ext item reg] by (auto simp: key_sources_def)

lemma keys_step:
  "fst ` set (register_event ext item reg) = insert (event_key ext item) (fst ` set reg)"
  using map_of_register_event [of ext item reg] by blast

lemma key_mentions_fold:
  "key_mentions (fold (register_event ext) evs reg) k =
     key_mentions reg k + length (filter (\<lambda>item. event_key ext item = k) evs)"
  by (induction evs arbitrary: reg) (simp_all add: key_mentions_step)

lemma key_sources_fold:
  "key_sources (fold (register_event ext) evs reg) k =
     key_sources reg k \<union> (doc_name \<circ> fst) ` {item \<in> set evs. event_key ext item = k}"
  by (induction evs arbitrary: reg) (auto simp: key_sources_step)

lemma keys_fold:
  "fst ` set (fold (register_event ext) evs reg) = fst ` set reg \<union> event_key ext ` set evs"
  by (induction evs arbitrary: reg) (auto simp: keys_step)

lemma swap_mentions:
  "key_mentions (build_registry ext [A, B]) k = key_mentions (build_registry ext [B, A]) k"
proof -
  have "batch_events ext [A, B] = batch_events ext [A] @ batch_events ext [B]"
    using batch_events_append [of ext "[A]" "[B]"] by simp
  moreover have "batch_events ext [B, A] = batch_events ext [B] @ batch_events ext [A]"
    using batch_events_append [of ext "[B]" "[A]"] by simp
  ultimately show ?thesis by (simp add: build_registry_events key_mentions_fold)
qed

lemma swap_sources:
  "key_sources (build_registry ext [A, B]) k = key_sources (build_registry ext [B, A]) k"
proof -
  have "batch_events ext [A, B] = batch_events ext [A] @ batch_events ext [B]"
    using batch_events_append [of ext "[A]" "[B]"] by simp
  moreover have "batch_events ext [B, A] = batch_events ext [B] @ batch_events ext [A]"
    using batch_events_append [of ext "[B]" "[A]"] by simp
  ultimately show ?thesis by (auto simp: build_registry_events key_sources_fold)
qed

lemma swap_keys:
  "fst ` set (build_registry ext [A, B]) = fst ` set (build_registry ext [B, A])"
proof -
  have "batch_events ext [A, B] = batch_events ext [A] @ batch_events ext [B]"
    using batch_events_append [of ext "[A]" "[B]"] by simp
  moreover have "batch_events ext [B, A] = batch_events ext [B] @ batch_events ext [A]"
    using batch_events_append [of ext "[B]" "[A]"] by simp
  ultimately show ?thesis by (auto simp: build_registry_events keys_fold)
qed

lemma explicit_events_kind:
  "(nm, cat, ty, sn) \<in> set (explicit_events ext src) \<Longrightarrow> ty = ''explicit'' \<and> nm \<in> set (COMMON_SKILLS ext)"
  by (auto simp: explicit_events_def)

lemma implicit_events_kind:
  "(nm, cat, ty, sn) \<in> set (implicit_events ext src) \<Longrightarrow> ty = ''implicit'' \<and> nm \<in> fst ` set IMPLICIT_PATTERNS"
  by (force simp: implicit_events_def)

lemma batch_events_kind_ok:
  assumes "item \<in> set (batch_events ext srcs)"
  shows "event_kind_ok ext item"
proof -
  obtain src nm cat ty sn where item: "item = (src, nm, cat, ty, sn)" by (cases item) auto
  from assms have "(nm, cat, ty, sn) \<in> set (explicit_events ext src) \<or> (nm, cat, ty, sn) \<in> set (implicit_events ext src)"
    unfolding item batch_events_def by auto
  then show ?thesis
  proof
    assume "(nm, cat, ty, sn) \<in> set (explicit_events ext src)"
    then have "ty = ''explicit''" "nm \<in> set (COMMON_SKILLS ext)"
      using explicit_events_kind by blast+
    then show ?thesis by (simp add: item event_kind_ok_def)
  next
    assume "(nm, cat, ty, sn) \<in> set (implicit_events ext src)"
    then have "ty = ''implicit''" "nm \<in> fst ` set IMPLICIT_PATTERNS"
      using implicit_events_kind by blast+
    then show ?thesis by (simp add: item event_kind_ok_def)
  qed
qed

lemma register_event_kinds_ok:
  assumes "kinds_ok ext reg" "event_kind_ok ext item"
  shows "kinds_ok ext (register_event ext item reg)"
proof -
  obtain src nm cat ty sn where item: "item = (src, nm, cat, ty, sn)" by (cases item) auto
  from map_of_register_event [of ext item reg] obtain e where
    e: "map_of (register_event ext item reg) = (map_of reg)(event_key ext item \<mapsto> e)"
       "entry_type e = (case map_of reg (event_key ext item) of None \<Rightarrow> fst (snd (snd (snd item))) | Some e0 \<Rightarrow> entry_type e0)"
    by blast
  have k: "event_key ext item = normalize_skill ext nm" by (simp add: item event_key_def)
  show ?thesis
    unfolding kinds_ok_def e(1)
  proof (intro allI impI)
    fix k' e'
    assume h: "((map_of reg)(event_key ext item \<mapsto> e)) k' = Some e'"
    show "(entry_type e' = ''explicit'' \<and> k' \<in> normalize_skill ext ` set (COMMON_SKILLS ext)) \<or>
        (entry_type e' = ''implicit'' \<and> k' \<in> normalize_skill ext ` fst ` set IMPLICIT_PATTERNS)"
    proof (cases "k' = event_key ext item")
      case False
      with h assms(1) show ?thesis by (simp add: kinds_ok_def)
    next
      case True
      with h have e': "e' = e" by simp
      show ?thesis
      proof (cases "map_of reg (event_key ext item)")
        case None
        then have "entry_type e = ty" using e(2) by (simp add: item)
        with assms(2) show ?thesis unfolding e' True k by (simp add: item event_kind_ok_def)
      next
        case (Some e0)
        then have "entry_type e = entry_type e0" using e(2) by simp
        with assms(1) Some show ?thesis unfolding e' True by (auto simp: kinds_ok_def)
      qed
    qed
  qed
qed

lemma fold_kinds_ok:
  "kinds_ok ext reg \<Longrightarrow> (\<And>item. item \<in> set evs \<Longrightarrow> event_kind_ok ext item) \<Longrightarrow>
   kinds_ok ext (fold (register_event ext) evs reg)"
  by (induction evs arbitrary: reg) (simp_all add: register_event_kinds_ok)

lemma build_registry_kinds_ok: "kinds_ok ext (build_registry ext srcs)"
  unfolding build_registry_events
  by (rule fold_kinds_ok) (simp_all add: kinds_ok_def batch_events_kind_ok)

lemma entry_confidence_cong:
  "mentions e1 = mentions e2 \<Longrightarrow> length (entry_sources e1) = length (entry_sources e2) \<Longrightarrow>
   entry_type e1 = entry_type e2 \<Longrightarrow> entry_confidence e1 = entry_confidence e2"
  by (simp add: entry_confidence_def)

lemma registry_ok_map_of:
  "registry_ok ext reg \<Longrightarrow> (k, e) \<in> set reg \<Longrightarrow> map_of reg k = Some e"
  by (simp add: registry_ok_def)

lemma swap_entries:
  assumes "(k, e1) \<in> set (build_registry ext [A, B])" "(k, e2) \<in> set (build_registry ext [B, A])"
  shows "mentions e1 = mentions e2 \<and> sort (entry_sources e1) = sort (entry_sources e2) \<and>
         (entry_type e1 = entry_type e2 \<longrightarrow> entry_confidence e1 = entry_confidence e2) \<and>
         (lexicon_separate ext \<longrightarrow> entry_type e1 = entry_type e2)"
proof -
  let ?r1 = "build_registry ext [A, B]" and ?r2 = "build_registry ext [B, A]"
  have ok: "registry_ok ext ?r1" "registry_ok ext ?r2" by (rule build_registry_ok)+
  have m1: "map_of ?r1 k = Some e1" using ok(1) assms(1) by (rule registry_ok_map_of)
  have m2: "map_of ?r2 k = Some e2" using ok(2) assms(2) by (rule registry_ok_map_of)
  have d: "distinct (entry_sources e1)" "distinct (entry_sources e2)"
    using ok assms by (auto simp: registry_ok_def)
  have men: "mentions e1 = mentions e2"
    using swap_mentions [of ext A B k] by (simp add: key_mentions_def m1 m2)
  have src: "set (entry_sources e1) = set (entry_sources e2)"
    using swap_sources [of ext A B k] by (simp add: key_sources_def m1 m2)
  have len: "length (entry_sources e1) = length (entry_sources e2)"
    using d src distinct_card [of "entry_sources e1"] distinct_card [of "entry_sources e2"] by simp
  have srt: "sort (entry_sources e1) = sort (entry_sources e2)"
    using d src by (intro sorted_distinct_set_unique) simp_all
  have kind: "lexicon_separate ext \<longrightarrow> entry_type e1 = entry_type e2"
  proof
    assume sep: "lexicon_separate ext"
    have "kinds_ok ext ?r1" "kinds_ok ext ?r2" by (rule build_registry_kinds_ok)+
    with m1 m2 have
      "(entry_type e1 = ''explicit'' \<and> k \<in> normalize_skill ext ` set (COMMON_SKILLS ext)) \<or>
       (entry_type e1 = ''implicit'' \<and> k \<in> normalize_skill ext ` fst ` set IMPLICIT_PATTERNS)"
      "(entry_type e2 = ''explicit'' \<and> k \<in> normalize_skill ext ` set (COMMON_SKILLS ext)) \<or>
       (entry_type e2 = ''implicit'' \<and> k \<in> normalize_skill ext ` fst ` set IMPLICIT_PATTERNS)"
      by (simp_all add: kinds_ok_def)
    moreover from sep have "k \<notin> normalize_skill ext ` set (COMMON_SKILLS ext) \<or>
        k \<notin> normalize_skill ext ` fst ` set IMPLICIT_PATTERNS"
      unfolding lexicon_separate_def by blast
    ultimately show "entry_type e1 = entry_type e2" by auto
  qed
  show ?thesis using men srt kind entry_confidence_cong [OF men len] by simp
qed

lemma signal_of_registry:
  assumes "registry_ok ext reg" "s \<in> set (finalize_registry reg)"
  shows "\<exists>e. (normalize_skill ext (name s), e) \<in> set reg \<and> s = finalize_entry e"
proof -
  from assms(2) obtain k e where ke: "(k, e) \<in> set reg" "s = finalize_entry e"
    by (auto simp: set_finalize_registry)
  with assms(1) have "normalize_skill ext (entry_name e) = k" by (auto simp: registry_ok_def)
  then have "normalize_skill ext (name s) = k" by (simp add: ke(2) finalize_entry_def)
  with ke show ?thesis by blast
qed

lemma swap_signals:
  assumes "s1 \<in> set (finalize_registry (build_registry ext [A, B]))"
    "s2 \<in> set (finalize_registry (build_registry ext [B, A]))"
    "normalize_skill ext (name s1) = normalize_skill ext (name s2)"
  shows "sources s1 = sources s2 \<and>
         (signal_type s1 = signal_type s2 \<longrightarrow> confidence s1 = confidence s2) \<and>
         (lexicon_separate ext \<longrightarrow> signal_type s1 = signal_type s2 \<and> confidence s1 = confidence s2)"
proof -
  from signal_of_registry [OF build_registry_ok assms(1)] obtain e1 where
    e1: "(normalize_skill ext (name s1), e1) \<in> set (build_registry ext [A, B])" "s1 = finalize_entry e1"
    by blast
  from signal_of_registry [OF build_registry_ok assms(2)] obtain e2 where
    e2: "(normalize_skill ext (name s2), e2) \<in> set (build_registry ext [B, A])" "s2 = finalize_entry e2"
    by blast
  from swap_entries [OF e1(1) e2(1) [folded assms(3)]] show ?thesis
    by (simp add: e1(2) e2(2) finalize_entry_def)
qed

lemma exp_small: "exp (25 / 192 :: real) \<le> 42289 / 36864"
  using exp_bound [of "25 / 192 :: real"] by (simp add: power2_eq_square)

lemma ln3_lower: "25 / 24 < ln (3 :: real)"
proof -
  have "exp (25 / 24 :: real) = exp (25 / 192) ^ 8"
    by (simp add: exp_of_nat_mult [symmetric])
  also have "\<dots> \<le> (42289 / 36864) ^ 8"
    by (rule power_mono [OF exp_small]) simp
  also have "\<dots> < (3 :: real)" by (simp add: power_divide)
  finally have "exp (25 / 24 :: real) < exp (ln 3)" by simp
  then show ?thesis by (simp only: exp_less_cancel_iff)
qed

lemma ln3_upper: "ln (3 :: real) < 9 / 8"
proof -
  have "(1 :: real) + 9 / 32 + (9 / 32)\<^sup>2 / 2 \<le> exp (9 / 32)"
    by (rule exp_lower_Taylor_quadratic) simp
  then have a: "(2705 / 2048 :: real) \<le> exp (9 / 32)" by (simp add: power2_eq_square)
  have "(3 :: real) < (2705 / 2048) ^ 4" by (simp add: power_divide)
  also have "\<dots> \<le> exp (9 / 32) ^ 4" by (rule power_mono [OF a]) simp
  also have "\<dots> = exp (9 / 8 :: real)" by (simp add: exp_of_nat_mult [symmetric])
  finally have "exp (ln 3) < exp (9 / 8 :: real)" by simp
  then show ?thesis by (simp only: exp_less_cancel_iff)
qed

lemma confidence_implicit_2_2: "spec_confidence ''implicit'' 2 2 = 66 / 100"
proof -
  have "spec_confidence ''implicit'' 2 2 = py_round2 (0.53 + 0.12 * ln 3)"
    using ln3_lower ln3_upper by (simp add: spec_confidence_def Let_def min_def)
  also have "\<dots> = real_of_int 66 / 100"
    by (rule py_round2_near) (use ln3_lower ln3_upper in simp_all)
  finally show ?thesis by simp
qed

lemma confidence_explicit_2_2: "spec_confidence ''explicit'' 2 2 = 76 / 100"
proof -
  have "spec_confidence ''explicit'' 2 2 = py_round2 (0.63 + 0.12 * ln 3)"
    using ln3_lower ln3_upper by (simp add: spec_confidence_def Let_def min_def)
  also have "\<dots> = real_of_int 76 / 100"
    by (rule py_round2_near) (use ln3_lower ln3_upper in simp_all)
  finally show ?thesis by simp
qed

lemma sample_registry_led_leadership:
  "\<exists>e. build_registry sample_ext [sample_doc ''a'' ''led'', sample_doc ''b'' ''leadership'']
         = [(''leadership'', e)] \<and>
       entry_name e = ''leadership'' \<and> entry_type e = ''implicit'' \<and> mentions e = 2 \<and>
       entry_sources e = [''b'', ''a'']"
  apply (simp add: eval_loops)
  apply (simp add: eval_register)
  done

lemma sample_registry_leadership_led:
  "\<exists>e. build_registry sample_ext [sample_doc ''b'' ''leadership'', sample_doc ''a'' ''led'']
         = [(''leadership'', e)] \<and>
       entry_name e = ''leadership'' \<and> entry_type e = ''explicit'' \<and> mentions e = 2 \<and>
       entry_sources e = [''a'', ''b'']"
  apply (simp add: eval_loops)
  apply (simp add: eval_register)
  done

lemma finalize_registry_single: "finalize_registry [(k, e)] = [finalize_entry e]"
  by (simp add: finalize_registry_def py_sorted_reverse_def)

lemma built_confidences_signals:
  "built_confidences ext srcs =
     Some (map (\<lambda>s. (normalize_skill ext (name s), confidence s)) (finalize_registry (build_registry ext srcs)))"
  using build_skill_profile_Inr [of ext srcs] by (auto simp: built_confidences_def)

lemma normalize_leadership: "normalize_skill sample_ext ''leadership'' = ''leadership''"
  by (simp add: sample_ext_def sample_normalize_def strip_def isspace_def lower_def lower_char_def isupper_def)

lemmas eval_loops' = eval_loops separate_ext_def

lemma separate_registry_1:
  "\<exists>e. build_registry separate_ext [sample_doc ''a'' ''led'', sample_doc ''b'' ''led led led led'']
         = [(''leadership'', e)] \<and> entry_name e = ''leadership''"
  apply (simp add: eval_loops')
  apply (simp add: eval_register)
  done

lemma separate_registry_2:
  "\<exists>e. build_registry separate_ext [sample_doc ''b'' ''led led led led'', sample_doc ''a'' ''led'']
         = [(''leadership'', e)] \<and> entry_name e = ''leadership''"
  apply (simp add: eval_loops')
  apply (simp add: eval_register)
  done

lemma separate_ext_separate: "lexicon_separate separate_ext"
  by (simp add: lexicon_separate_def separate_ext_def sample_ext_def IMPLICIT_PATTERNS_def
      sample_normalize_def strip_def isspace_def lower_def lower_char_def isupper_def)

section \<open>The claims\<close>

text \<open>
  C1. Every signal that \<open>_finalize_registry\<close> produces is the finalisation of a registry
  entry, and conversely. The confidence of a finalised entry is the specification's formula
  applied to the entry's kind, mention count and number of distinct sources; it is
  strictly positive and at most 0.98; and an explicit entry with one mention and one
  source scores 0.63.
\<close>

theorem confidence_formula:
  "set (finalize_registry registry) = (\<lambda>(key, entry). finalize_entry entry) ` set registry \<and>
   confidence (finalize_entry entry) =
     spec_confidence (entry_type entry) (mentions entry) (length (entry_sources entry)) \<and>
   0 < confidence (finalize_entry entry) \<and>
   confidence (finalize_entry entry) \<le> 0.98 \<and>
   (entry_type entry = ''explicit'' \<and> mentions entry = 1 \<and> length (entry_sources entry) = 1
      \<longrightarrow> confidence (finalize_entry entry) = 0.63)"
proof -
  have c: "confidence (finalize_entry entry) = entry_confidence entry"
    by (simp add: finalize_entry_def)
  from entry_confidence_bounds [of entry] have "0 < entry_confidence entry" "entry_confidence entry \<le> 0.98"
    by simp_all
  moreover have "entry_type entry = ''explicit'' \<and> mentions entry = 1 \<and> length (entry_sources entry) = 1
      \<longrightarrow> entry_confidence entry = 0.63"
    using entry_confidence_example [of entry] by simp
  ultimately show ?thesis
    using c set_finalize_registry [of registry] entry_confidence_spec [of entry] by simp
qed

theorem confidence_formula_witness:
  "entry_type sample_entry = ''explicit'' \<and> mentions sample_entry = 1 \<and>
   length (entry_sources sample_entry) = 1 \<and>
   confidence (finalize_entry sample_entry) = 0.63 \<and>
   set (finalize_registry [(''python'', sample_entry)]) = {finalize_entry sample_entry}"
  using confidence_formula [of "[(''python'', sample_entry)]" sample_entry]
  by (simp add: sample_entry_def)

text \<open>
  C4. The profile build always returns a profile, and no signal of it carries more than
  three evidence entries.
\<close>

theorem evidence_cap:
  "\<exists>p. build_skill_profile ext srcs = Inr p \<and>
       signals p = finalize_registry (build_registry ext srcs) \<and>
       (\<forall>s \<in> set (signals p). length (evidence s) \<le> 3)"
proof -
  obtain p where p: "build_skill_profile ext srcs = Inr p"
    "signals p = finalize_registry (build_registry ext srcs)"
    using build_skill_profile_Inr by blast
  have "\<forall>s \<in> set (signals p). length (evidence s) \<le> 3"
    by (auto simp: p(2) set_finalize_registry evidence_finalize_entry)
  with p show ?thesis by blast
qed

theorem evidence_cap_witness:
  "\<exists>p. build_skill_profile sample_ext [sample_doc ''cv'' ''led led led led''] = Inr p \<and>
       length (snippets (snd (hd (build_registry sample_ext [sample_doc ''cv'' ''led led led led''])))) = 4 \<and>
       (\<exists>s. s \<in> set (signals p) \<and> name s = ''leadership'' \<and> length (evidence s) \<le> 3)"
proof -
  obtain p where p: "build_skill_profile sample_ext [sample_doc ''cv'' ''led led led led''] = Inr p"
    "signals p = finalize_registry (build_registry sample_ext [sample_doc ''cv'' ''led led led led''])"
    "\<forall>s \<in> set (signals p). length (evidence s) \<le> 3"
    using evidence_cap [of sample_ext "[sample_doc ''cv'' ''led led led led'']"] by blast
  have "\<exists>s. s \<in> set (signals p) \<and> name s = ''leadership''"
    by (simp add: p(2) set_finalize_registry sample_registry_led4 finalize_entry_def)
  with p show ?thesis by (auto simp: sample_registry_led4)
qed


text \<open>
  C8. Parsing a team inventory never raises and returns, in order, one member for each
  line that contains a colon and whose comma-separated part after the first colon has a
  non-blank item: the name is the trimmed text before the colon, the skills are the trimmed
  non-blank items. On \<open>"Asha: cloud, security\nBadLine\nKofi: python"\<close> it returns Asha with
  two skills and Kofi with one.
\<close>

theorem parse_team_profiles_lines:
  "parse_team_profiles txt = Inr (spec_team_members txt) \<and>
   parse_team_profiles team_text =
     Inr [\<lparr>member_name = ''Asha'', skills = [''cloud'', ''security'']\<rparr>,
          \<lparr>member_name = ''Kofi'', skills = [''python'']\<rparr>]"
proof -
  have every_text: "parse_team_profiles txt = Inr (spec_team_members txt)"
    by (rule parse_team_profiles_spec)
  have "parse_team_profiles team_text = Inr (spec_team_members team_text)"
    by (rule parse_team_profiles_spec)
  then have example: "parse_team_profiles team_text =
     Inr [\<lparr>member_name = ''Asha'', skills = [''cloud'', ''security'']\<rparr>,
          \<lparr>member_name = ''Kofi'', skills = [''python'']\<rparr>]"
    by (simp only: team_example)
  from every_text example show ?thesis by (rule conjI)
qed

text \<open>
  C5. Matching against an empty or whitespace-only job text returns \<open>None\<close>. Matching
  against a job text that is not blank and in which no skill is detected returns a result
  with coverage 0, no matched skills, no gaps and no recommendations. No job text makes
  the matcher raise.
\<close>

theorem empty_job_text:
  "(job_text = [] \<or> strip job_text = [] \<longrightarrow> match_profile_to_job ext prof job_text = Inr None) \<and>
   (strip job_text \<noteq> [] \<and> build_skill_profile ext [job_source job_text] = Inr jp \<and> signals jp = []
      \<longrightarrow> match_profile_to_job ext prof job_text =
            Inr (Some \<lparr>coverage = 0, matched = [], gaps = [], recommendations = [],
                       raw_job_profile = jp\<rparr>)) \<and>
   (\<exists>res. match_profile_to_job ext prof job_text = Inr res)"
  using match_blank [of job_text ext prof] match_no_skills [of ext job_text jp prof]
    match_total [of ext prof job_text]
  by blast

theorem empty_job_text_witness:
  "match_profile_to_job sample_ext sample_profile [] = Inr None \<and>
   strip ''   '' = [] \<and>
   match_profile_to_job sample_ext sample_profile ''   '' = Inr None \<and>
   strip [CHR 0xA0, CHR 0x85] = [] \<and>
   match_profile_to_job sample_ext sample_profile [CHR 0xA0, CHR 0x85] = Inr None \<and>
   strip ''hello'' \<noteq> [] \<and>
   (\<exists>jp. build_skill_profile sample_ext [job_source ''hello''] = Inr jp \<and> signals jp = [] \<and>
      match_profile_to_job sample_ext sample_profile ''hello'' =
        Inr (Some \<lparr>coverage = 0, matched = [], gaps = [], recommendations = [],
                   raw_job_profile = jp\<rparr>))"
proof -
  obtain jp where jp: "build_skill_profile sample_ext [job_source ''hello''] = Inr jp"
    "signals jp = finalize_registry (build_registry sample_ext [job_source ''hello''])"
    using build_skill_profile_Inr by blast
  have e: "signals jp = []"
    by (simp add: jp(2) sample_registry_hello finalize_registry_def py_sorted_reverse_def)
  have s1: "strip ''   '' = []" by (simp add: strip_def isspace_def)
  have s2: "strip ''hello'' \<noteq> []" by (simp add: strip_def isspace_def)
  have s3: "strip [CHR 0xA0, CHR 0x85] = []" by (simp add: strip_def isspace_def)
  show ?thesis
    using empty_job_text [of "[]" sample_ext sample_profile jp]
      empty_job_text [of "''   ''" sample_ext sample_profile jp]
      empty_job_text [of "[CHR 0xA0, CHR 0x85]" sample_ext sample_profile jp] s3
      empty_job_text [of "''hello''" sample_ext sample_profile jp]
      jp(1) e s1 s2
    by blast
qed

text \<open>
  C6. When the job text yields at least one signal, the matcher returns a result in which
  \<open>matched\<close> holds exactly the names of the job signals whose normalized key is a key of
  the candidate's skill mapping, \<open>gaps\<close> holds exactly the names of the others, both are
  sorted and free of duplicates, and \<open>coverage\<close> is the number of job keys that are
  candidate keys divided by the number of job keys, as a float, rounded to two decimals:
  a multiple of 0.01 at most 0.005 away from the quotient (for fewer than \<open>2^45\<close> job keys,
  beyond which the error of the float division could show). With four job keys of which
  three are candidate keys the coverage is 0.75.
\<close>

theorem job_match:
  assumes "build_skill_profile ext [job_source job_text] = Inr jp" and "signals jp \<noteq> []"
  shows "\<exists>r. match_profile_to_job ext prof job_text = Inr (Some r) \<and>
     set (matched r) = {name s |s. s \<in> set (signals jp) \<and> normalize_skill ext (name s) \<in> skill_keys ext (signals prof)} \<and>
     set (gaps r) = {name s |s. s \<in> set (signals jp) \<and> normalize_skill ext (name s) \<notin> skill_keys ext (signals prof)} \<and>
     sorted (matched r) \<and> distinct (matched r) \<and> sorted (gaps r) \<and> distinct (gaps r) \<and>
     coverage r = py_round2 (float_round
                    (real (card (skill_keys ext (signals jp) \<inter> skill_keys ext (signals prof)))
                     / real (card (skill_keys ext (signals jp))))) \<and>
     (card (skill_keys ext (signals jp)) < 2 ^ 45 \<longrightarrow>
        (\<exists>j. coverage r = real_of_int j / 100) \<and>
        \<bar>coverage r - real (card (skill_keys ext (signals jp) \<inter> skill_keys ext (signals prof)))
                        / real (card (skill_keys ext (signals jp)))\<bar> \<le> 1 / 200) \<and>
     (card (skill_keys ext (signals jp)) = 4 \<and>
      card (skill_keys ext (signals jp) \<inter> skill_keys ext (signals prof)) = 3
        \<longrightarrow> coverage r = 0.75)"
proof -
  let ?JK = "skill_keys ext (signals jp)" and ?K = "skill_keys ext (signals prof)"
  from job_match_sets [OF assms, of prof] obtain r where
    r: "match_profile_to_job ext prof job_text = Inr (Some r) \<and>
     set (matched r) = {name s |s. s \<in> set (signals jp) \<and> normalize_skill ext (name s) \<in> skill_keys ext (signals prof)} \<and>
     set (gaps r) = {name s |s. s \<in> set (signals jp) \<and> normalize_skill ext (name s) \<notin> skill_keys ext (signals prof)} \<and>
     sorted (matched r) \<and> distinct (matched r) \<and> sorted (gaps r) \<and> distinct (gaps r) \<and>
     coverage r = py_round2 (float_round
                    (real (card (skill_keys ext (signals jp) \<inter> skill_keys ext (signals prof)))
                     / real (card (skill_keys ext (signals jp)))))" ..
  then have cov: "coverage r = py_round2 (float_round (real (card (?JK \<inter> ?K)) / real (card ?JK)))"
    by (simp only: simp_thms)
  have example: "card ?JK = 4 \<and> card (?JK \<inter> ?K) = 3 \<longrightarrow> coverage r = 0.75"
    using round2_three_quarters by (simp add: cov)
  have fin: "finite ?JK" by (simp add: skill_keys_def)
  have "?JK \<noteq> {}" using assms(2) by (cases "signals jp") (simp_all add: skill_keys_image)
  then have pos: "0 < card ?JK" using fin by (simp add: card_gt_0_iff)
  have le: "card (?JK \<inter> ?K) \<le> card ?JK" using fin by (intro card_mono) simp_all
  have nearest: "card ?JK < 2 ^ 45 \<longrightarrow>
        (\<exists>j. coverage r = real_of_int j / 100) \<and>
        \<bar>coverage r - real (card (?JK \<inter> ?K)) / real (card ?JK)\<bar> \<le> 1 / 200"
  proof
    assume "card ?JK < 2 ^ 45"
    from round2_quotient [OF pos le this] obtain j where
      j: "py_round2 (float_round (real (card (?JK \<inter> ?K)) / real (card ?JK))) = real_of_int j / 100"
         "\<bar>real_of_int j / 100 - real (card (?JK \<inter> ?K)) / real (card ?JK)\<bar> \<le> 1 / 200"
      by blast
    from j(1) have "\<exists>j. coverage r = real_of_int j / 100" unfolding cov by (rule exI)
    moreover from j(2) have "\<bar>coverage r - real (card (?JK \<inter> ?K)) / real (card ?JK)\<bar> \<le> 1 / 200"
      by (simp only: cov j(1))
    ultimately show "(\<exists>j. coverage r = real_of_int j / 100) \<and>
        \<bar>coverage r - real (card (?JK \<inter> ?K)) / real (card ?JK)\<bar> \<le> 1 / 200" by (rule conjI)
  qed
  from r nearest example show ?thesis by (intro exI [of _ r]) (simp only: simp_thms)
qed

theorem job_match_witness:
  "\<exists>jp r. build_skill_profile sample_ext [job_source ''python docker sql aws''] = Inr jp \<and>
     signals jp \<noteq> [] \<and>
     card (skill_keys sample_ext (signals jp)) = 4 \<and>
     card (skill_keys sample_ext (signals jp) \<inter> skill_keys sample_ext (signals sample_candidate)) = 3 \<and>
     card (skill_keys sample_ext (signals jp)) < 2 ^ 45 \<and>
     match_profile_to_job sample_ext sample_candidate ''python docker sql aws'' = Inr (Some r) \<and>
     coverage r = 0.75 \<and> \<bar>coverage r - 3 / 4\<bar> \<le> 1 / 200"
proof -
  let ?srcs = "[job_source ''python docker sql aws'']"
  obtain jp where jp: "build_skill_profile sample_ext ?srcs = Inr jp"
    "signals jp = finalize_registry (build_registry sample_ext ?srcs)"
    using build_skill_profile_Inr by blast
  have keys: "skill_keys sample_ext (signals jp) = {''python'', ''docker'', ''sql'', ''aws''}"
  proof -
    have "skill_keys sample_ext (signals jp) = set (map fst (build_registry sample_ext ?srcs))"
      by (simp add: jp(2) keys_finalize_build)
    also have "\<dots> = set [''python'', ''docker'', ''sql'', ''aws'']"
      by (simp only: sample_registry_job)
    finally show ?thesis by simp
  qed
  have ne: "signals jp \<noteq> []"
  proof
    assume "signals jp = []"
    then have "skill_keys sample_ext (signals jp) = {}"
      by (simp add: skill_keys_def as_skill_set_def)
    then show False by (simp only: keys) simp
  qed
  have cand: "skill_keys sample_ext (signals sample_candidate) = {''python'', ''docker'', ''sql''}"
    by (simp add: skill_keys_image sample_candidate_def sample_ext_def sample_normalize_def
        strip_def isspace_def lower_def lower_char_def)
  have c4: "card (skill_keys sample_ext (signals jp)) = 4"
    by (simp add: keys)
  have small: "card (skill_keys sample_ext (signals jp)) < 2 ^ 45"
    by (simp add: c4)
  have "{''python'', ''docker'', ''sql'', ''aws''} \<inter> {''python'', ''docker'', ''sql''} = {''python'', ''docker'', ''sql''}"
    by auto
  then have c3: "card (skill_keys sample_ext (signals jp) \<inter> skill_keys sample_ext (signals sample_candidate)) = 3"
    by (simp add: keys cand)
  from job_match [OF jp(1) ne, of sample_candidate] obtain r where
    r: "match_profile_to_job sample_ext sample_candidate ''python docker sql aws'' = Inr (Some r)"
    and n: "card (skill_keys sample_ext (signals jp)) < 2 ^ 45 \<longrightarrow>
        (\<exists>j. coverage r = real_of_int j / 100) \<and>
        \<bar>coverage r - real (card (skill_keys sample_ext (signals jp) \<inter> skill_keys sample_ext (signals sample_candidate)))
                        / real (card (skill_keys sample_ext (signals jp)))\<bar> \<le> 1 / 200"
    and c: "card (skill_keys sample_ext (signals jp)) = 4 \<and>
      card (skill_keys sample_ext (signals jp) \<inter> skill_keys sample_ext (signals sample_candidate)) = 3
        \<longrightarrow> coverage r = 0.75"
    by (elim exE conjE)
  from c c4 c3 have v: "coverage r = 0.75" by (simp only: simp_thms)
  from n small have "\<bar>coverage r - real (card (skill_keys sample_ext (signals jp) \<inter> skill_keys sample_ext (signals sample_candidate)))
                        / real (card (skill_keys sample_ext (signals jp)))\<bar> \<le> 1 / 200"
    by (simp only: simp_thms)
  then have d: "\<bar>coverage r - 3 / 4\<bar> \<le> 1 / 200" by (simp add: c4 c3)
  from r v d c4 c3 small jp(1) ne show ?thesis
    by (intro exI [of _ jp] exI [of _ r]) (simp only: simp_thms)
qed

text \<open>
  C9. Comparing a profile against an empty team returns, without raising, team size 0,
  team skill coverage 0, no team gaps, and as unique strengths the sorted display names of
  all the profile's signals. This holds for every profile with one signal per normalized
  skill name, and so for every profile that \<open>build_skill_profile\<close> returns.
\<close>

theorem empty_team:
  "(distinct (map (\<lambda>s. normalize_skill ext (name s)) (signals prof)) \<longrightarrow>
      compare_against_team ext prof [] =
        Inr \<lparr>team_size = 0, team_skill_coverage = 0,
             unique_strengths = sort (map name (signals prof)), team_gaps = []\<rparr>) \<and>
   (\<exists>p. build_skill_profile ext srcs = Inr p \<and>
      compare_against_team ext p [] =
        Inr \<lparr>team_size = 0, team_skill_coverage = 0,
             unique_strengths = sort (map name (signals p)), team_gaps = []\<rparr>)"
proof -
  obtain p where p: "build_skill_profile ext srcs = Inr p"
    "signals p = finalize_registry (build_registry ext srcs)"
    using build_skill_profile_Inr by blast
  have "distinct (map (\<lambda>s. normalize_skill ext (name s)) (signals p))"
    unfolding p(2) by (rule build_signals_distinct)
  then show ?thesis using p(1) compare_empty_team by blast
qed

theorem empty_team_witness:
  "distinct (map (\<lambda>s. normalize_skill sample_ext (name s)) (signals sample_profile)) \<and>
   compare_against_team sample_ext sample_profile [] =
     Inr \<lparr>team_size = 0, team_skill_coverage = 0,
          unique_strengths = [''leadership'', ''python''], team_gaps = []\<rparr>"
proof -
  have d: "distinct (map (\<lambda>s. normalize_skill sample_ext (name s)) (signals sample_profile))"
    by (simp add: sample_profile_def sample_ext_def sample_normalize_def
        strip_def isspace_def lower_def lower_char_def isupper_def)
  have "sort (map name (signals sample_profile)) = [''leadership'', ''python'']"
    by (simp add: sample_profile_def)
  with d empty_team [of sample_ext sample_profile "[]"] show ?thesis by simp
qed

text \<open>
  C10, as amended. For every profile and every limit that is not negative, the highlight
  generator returns, without raising, one bullet for each of the first \<open>limit\<close> signals of
  the profile, in the profile's order, hence at most \<open>limit\<close> bullets; the limit defaults
  to 4; and a signal without evidence gives the bullet without an evidence clause.
\<close>

theorem cv_highlights_limit:
  assumes "0 \<le> limit"
  shows "\<exists>bs. generate_cv_highlights ext prof limit = Inr bs \<and>
           int (length bs) \<le> limit \<and>
           length bs = min (nat limit) (length (signals prof)) \<and>
           map Inr bs = map (cv_bullet ext) (take (length bs) (signals prof)) \<and>
           generate_cv_highlights_default ext prof = generate_cv_highlights ext prof 4 \<and>
           (evidence s = [] \<longrightarrow>
              cv_bullet ext s =
                Inr (str_title ext (name s) @ '' ('' @ category s @ '') - confidence ''
                     @ str_float ext (confidence s)))"
proof -
  let ?bs = "map (\<lambda>s. projr (cv_bullet ext s)) (py_slice_to (signals prof) limit)"
  have sl: "py_slice_to (signals prof) limit = take (nat limit) (signals prof)"
    using assms by (simp add: py_slice_to_def)
  have len: "length ?bs = min (nat limit) (length (signals prof))"
    by (simp add: sl min.commute)
  have "take (length ?bs) (signals prof) = take (nat limit) (signals prof)"
    by (cases "nat limit \<le> length (signals prof)") (simp_all add: sl min_def)
  then have m: "map Inr ?bs = map (cv_bullet ext) (take (length ?bs) (signals prof))"
    by (simp add: sl cv_bullet_Inr)
  have "length ?bs \<le> nat limit" by (simp add: sl)
  then have b: "int (length ?bs) \<le> limit" using assms by linarith
  have e: "evidence s = [] \<longrightarrow>
              cv_bullet ext s =
                Inr (str_title ext (name s) @ '' ('' @ category s @ '') - confidence ''
                     @ str_float ext (confidence s))"
    by (simp add: cv_bullet_Inr)
  show ?thesis
    using len m b e generate_cv_highlights_Inr [of ext prof limit]
    by (intro exI [of _ ?bs]) (simp add: generate_cv_highlights_default_def)
qed

theorem cv_highlights_limit_witness:
  "(0 :: int) \<le> 1 \<and> evidence (hd (signals sample_profile)) = [] \<and>
   (\<exists>bs. generate_cv_highlights sample_ext sample_profile 1 = Inr bs \<and> length bs = 1) \<and>
   cv_bullet sample_ext (hd (signals sample_profile)) =
     Inr ''Python (Technical Foundation) - confidence 0.63''"
proof -
  have h: "(0 :: int) \<le> 1" by simp
  have e: "evidence (hd (signals sample_profile)) = []" by (simp add: sample_profile_def)
  from cv_highlights_limit [OF h, of sample_ext sample_profile "hd (signals sample_profile)"]
  obtain bs where bs: "generate_cv_highlights sample_ext sample_profile 1 = Inr bs"
    "length bs = min (nat 1) (length (signals sample_profile))"
    "evidence (hd (signals sample_profile)) = [] \<longrightarrow>
       cv_bullet sample_ext (hd (signals sample_profile)) =
         Inr (str_title sample_ext (name (hd (signals sample_profile))) @ '' (''
              @ category (hd (signals sample_profile)) @ '') - confidence ''
              @ str_float sample_ext (confidence (hd (signals sample_profile))))"
    by blast
  have l: "length bs = 1" using bs(2) by (simp add: sample_profile_def)
  have "cv_bullet sample_ext (hd (signals sample_profile)) =
     Inr ''Python (Technical Foundation) - confidence 0.63''"
    using bs(3) e by (simp add: sample_profile_def title_python sample_ext_def sample_str_float_def)
  with h e bs(1) l show ?thesis by blast
qed

text \<open>
  C10, as stated, fails for a negative limit: with limit \<open>-1\<close> and a profile of two
  signals the generator returns one bullet, which is more than the limit.
\<close>

theorem cv_highlights_negative_limit:
  "generate_cv_highlights sample_ext sample_profile (- 1) =
     Inr [''Python (Technical Foundation) - confidence 0.63''] \<and>
   \<not> int (length [''Python (Technical Foundation) - confidence 0.63'']) \<le> - 1"
  by (simp add: sample_highlights_negative)


text \<open>
  C2, as amended. Building from \<open>[A, B]\<close> and from \<open>[B, A]\<close> both return a profile, with the
  same set of normalized skills and, for each normalized skill, the same mention count and
  the same sources. A skill's confidence is the same in both whenever its signal kind is
  the same in both, and kind and confidence are the same for every skill when no lexicon
  term has the normalized key of an implicit skill.
\<close>

theorem aggregation_order:
  "\<exists>p1 p2. build_skill_profile ext [A, B] = Inr p1 \<and> build_skill_profile ext [B, A] = Inr p2 \<and>
     signals p1 = finalize_registry (build_registry ext [A, B]) \<and>
     signals p2 = finalize_registry (build_registry ext [B, A]) \<and>
     skill_keys ext (signals p1) = skill_keys ext (signals p2) \<and>
     (\<forall>k. key_mentions (build_registry ext [A, B]) k = key_mentions (build_registry ext [B, A]) k) \<and>
     (\<forall>s1 \<in> set (signals p1). \<forall>s2 \<in> set (signals p2).
         normalize_skill ext (name s1) = normalize_skill ext (name s2) \<longrightarrow>
           sources s1 = sources s2 \<and>
           (signal_type s1 = signal_type s2 \<longrightarrow> confidence s1 = confidence s2) \<and>
           (lexicon_separate ext \<longrightarrow> signal_type s1 = signal_type s2 \<and> confidence s1 = confidence s2))"
proof -
  obtain p1 where p1: "build_skill_profile ext [A, B] = Inr p1"
    "signals p1 = finalize_registry (build_registry ext [A, B])"
    using build_skill_profile_Inr by blast
  obtain p2 where p2: "build_skill_profile ext [B, A] = Inr p2"
    "signals p2 = finalize_registry (build_registry ext [B, A])"
    using build_skill_profile_Inr by blast
  have keys: "skill_keys ext (signals p1) = skill_keys ext (signals p2)"
    by (simp only: p1(2) p2(2) keys_finalize_build swap_keys)
  have men: "\<forall>k. key_mentions (build_registry ext [A, B]) k = key_mentions (build_registry ext [B, A]) k"
    using swap_mentions by blast
  have sig: "\<forall>s1 \<in> set (signals p1). \<forall>s2 \<in> set (signals p2).
         normalize_skill ext (name s1) = normalize_skill ext (name s2) \<longrightarrow>
           sources s1 = sources s2 \<and>
           (signal_type s1 = signal_type s2 \<longrightarrow> confidence s1 = confidence s2) \<and>
           (lexicon_separate ext \<longrightarrow> signal_type s1 = signal_type s2 \<and> confidence s1 = confidence s2)"
    unfolding p1(2) p2(2) using swap_signals [of _ ext A B] by blast
  from p1 p2 keys men sig show ?thesis
    by (intro exI [of _ p1] exI [of _ p2]) (simp only: simp_thms)
qed

theorem aggregation_order_witness:
  "lexicon_separate separate_ext \<and>
   (\<exists>p1 p2 s1 s2.
      build_skill_profile separate_ext [sample_doc ''a'' ''led'', sample_doc ''b'' ''led led led led''] = Inr p1 \<and>
      build_skill_profile separate_ext [sample_doc ''b'' ''led led led led'', sample_doc ''a'' ''led''] = Inr p2 \<and>
      s1 \<in> set (signals p1) \<and> s2 \<in> set (signals p2) \<and>
      normalize_skill separate_ext (name s1) = normalize_skill separate_ext (name s2) \<and>
      sources s1 = sources s2 \<and> signal_type s1 = signal_type s2 \<and> confidence s1 = confidence s2)"
proof -
  let ?A = "sample_doc ''a'' ''led''" and ?B = "sample_doc ''b'' ''led led led led''"
  from aggregation_order [of separate_ext ?A ?B] obtain p1 p2 where
    p: "build_skill_profile separate_ext [?A, ?B] = Inr p1"
       "build_skill_profile separate_ext [?B, ?A] = Inr p2"
       "signals p1 = finalize_registry (build_registry separate_ext [?A, ?B])"
       "signals p2 = finalize_registry (build_registry separate_ext [?B, ?A])"
    and sig: "\<forall>s1 \<in> set (signals p1). \<forall>s2 \<in> set (signals p2).
         normalize_skill separate_ext (name s1) = normalize_skill separate_ext (name s2) \<longrightarrow>
           sources s1 = sources s2 \<and>
           (signal_type s1 = signal_type s2 \<longrightarrow> confidence s1 = confidence s2) \<and>
           (lexicon_separate separate_ext \<longrightarrow> signal_type s1 = signal_type s2 \<and> confidence s1 = confidence s2)"
    by (elim exE conjE)
  from separate_registry_1 obtain e1 where
    e1: "build_registry separate_ext [?A, ?B] = [(''leadership'', e1)]" "entry_name e1 = ''leadership''"
    by blast
  from separate_registry_2 obtain e2 where
    e2: "build_registry separate_ext [?B, ?A] = [(''leadership'', e2)]" "entry_name e2 = ''leadership''"
    by blast
  let ?s1 = "finalize_entry e1" and ?s2 = "finalize_entry e2"
  have m1: "?s1 \<in> set (signals p1)" by (simp add: p(3) e1(1) finalize_registry_single)
  have m2: "?s2 \<in> set (signals p2)" by (simp add: p(4) e2(1) finalize_registry_single)
  have n: "normalize_skill separate_ext (name ?s1) = normalize_skill separate_ext (name ?s2)"
    by (simp add: finalize_entry_def e1(2) e2(2))
  from sig m1 m2 n separate_ext_separate have
    "sources ?s1 = sources ?s2 \<and> signal_type ?s1 = signal_type ?s2 \<and> confidence ?s1 = confidence ?s2"
    by blast
  with p(1,2) m1 m2 n separate_ext_separate show ?thesis
    by (intro conjI exI [of _ p1] exI [of _ p2] exI [of _ ?s1] exI [of _ ?s2]) (simp_all only: simp_thms)
qed

text \<open>
  C2, as stated, fails when a lexicon term and an implicit skill share a key: with
  \<open>leadership\<close> in the lexicon, a document \<open>a\<close> reading \<open>led\<close> and a document \<open>b\<close> reading
  \<open>leadership\<close>, the skill \<open>leadership\<close> is registered as implicit when \<open>a\<close> comes first and
  scores 0.66, and as explicit when \<open>b\<close> comes first and scores 0.76.
\<close>

theorem aggregation_order_counterexample:
  "built_confidences sample_ext [sample_doc ''a'' ''led'', sample_doc ''b'' ''leadership'']
     = Some [(''leadership'', 0.66)] \<and>
   built_confidences sample_ext [sample_doc ''b'' ''leadership'', sample_doc ''a'' ''led'']
     = Some [(''leadership'', 0.76)]"
proof -
  from sample_registry_led_leadership obtain e1 where
    e1: "build_registry sample_ext [sample_doc ''a'' ''led'', sample_doc ''b'' ''leadership''] = [(''leadership'', e1)]"
      "entry_name e1 = ''leadership''" "entry_type e1 = ''implicit''" "mentions e1 = 2" "entry_sources e1 = [''b'', ''a'']"
    by blast
  from sample_registry_leadership_led obtain e2 where
    e2: "build_registry sample_ext [sample_doc ''b'' ''leadership'', sample_doc ''a'' ''led''] = [(''leadership'', e2)]"
      "entry_name e2 = ''leadership''" "entry_type e2 = ''explicit''" "mentions e2 = 2" "entry_sources e2 = [''a'', ''b'']"
    by blast
  have l1: "length (entry_sources e1) = 2" by (simp add: e1(5))
  have "entry_confidence e1 = spec_confidence ''implicit'' 2 2"
    by (simp only: entry_confidence_spec e1(3,4) l1)
  then have c1: "entry_confidence e1 = 0.66"
    by (simp add: confidence_implicit_2_2)
  have l2: "length (entry_sources e2) = 2" by (simp add: e2(5))
  have "entry_confidence e2 = spec_confidence ''explicit'' 2 2"
    by (simp only: entry_confidence_spec e2(3,4) l2)
  then have c2: "entry_confidence e2 = 0.76"
    by (simp add: confidence_explicit_2_2)
  show ?thesis
    by (simp add: built_confidences_signals e1(1,2) e2(1,2) finalize_registry_single finalize_entry_def
        normalize_leadership c1 c2)
qed

end
